theory Spec2Isabelle
  imports Main "HOL-Library.Word"
begin

unbundle bit_operations_syntax

section \<open>The cross-chain type script (crosschain\_typescript.c)\<close>

text \<open>
  The script is a C program run once per script group by the CKB virtual machine. It reads
  the transaction through host system calls and ends with an integer exit status. The
  embedding below follows the source function by function. Everything the source takes
  from headers that are not part of the sources (the system calls, the molecule decoder,
  blake2b, secp256k1) is a field of the record \<open>env\<close>, and the numbers of the macros
  of common.h are the fields of the record \<open>common_h\<close>: the theorems hold for every
  host, every library and all numbers behind these fields.
\<close>

subsection \<open>Bytes, sizes and status codes\<close>

type_synonym byte = "8 word"
type_synonym bytes = "byte list"

text \<open>The sizes \<^verbatim>\<open>#define\<close>d at the top of the file.\<close>

definition BLAKE2B_BLOCK_SIZE :: nat where "BLAKE2B_BLOCK_SIZE = 32"
definition BLAKE160_SIZE :: nat where "BLAKE160_SIZE = 20"
definition PUBKEY_SIZE :: nat where "PUBKEY_SIZE = 33"
definition RECID_INDEX :: nat where "RECID_INDEX = 64"
definition MAX_WITNESS_SIZE :: nat where "MAX_WITNESS_SIZE = 32768"
definition SCRIPT_SIZE :: nat where "SCRIPT_SIZE = 32768"
definition SIGNATURE_SIZE :: nat where "SIGNATURE_SIZE = 65"

text \<open>
  Modelled from the spec: the two system-call results the source compares with, whose
  header (ckb\_consts.h) is not part of the sources. By section 6 of the specification
  the exit status 0 accepts, and \<^verbatim>\<open>verify_init\<close> accepts by returning
  \<open>CKB_SUCCESS\<close>; the index-out-of-range signal is distinct from success and from the
  other errors. Its number 1 is that of the CKB system-call interface; the general theorems use
  of it only that it differs from \<open>CKB_SUCCESS\<close>.
\<close>

definition CKB_SUCCESS :: int where "CKB_SUCCESS = 0"
definition CKB_INDEX_OUT_OF_BOUND :: int where "CKB_INDEX_OUT_OF_BOUND = 1"

text \<open>The \<open>source\<close> argument of a system call, as far as the script uses it.\<close>

datatype source = CKB_SOURCE_INPUT | CKB_SOURCE_GROUP_INPUT | CKB_SOURCE_GROUP_OUTPUT

text \<open>
  Every \<^verbatim>\<open>return\<close> of a failure is a value of \<open>error\<close>, named after the macro the
  source returns. \<open>RET r\<close> stands for \<^verbatim>\<open>return ret;\<close>, where the source hands
  the result \<open>r\<close> of a system call or of the secp256k1 helper back unchanged.
  \<open>ERROR_WITNESS_SIZE\<close> and the three \<open>ERROR_SECP_...\<close> macros come from common.h.
\<close>

datatype error =
    ERROR_ARGUMENTS_LEN
  | ERROR_ENCODING
  | ERROR_SYSCALL
  | ERROR_SCRIPT_TOO_LONG
  | ERROR_OVERFLOWING
  | ERROR_1ST_CELL_TYPE_HASH_NOT_MATCH
  | ERROR_LOAD_INPUT
  | ERROR_GROUP_OUTPUT_INVALID
  | ERROR_GROUP_INPUT_INVALID
  | ERROR_CAPACITY_INVALID
  | ERROR_VALIDATOR_SIGNATURE_INVALID
  | ERROR_WITNESS_SIZE
  | ERROR_SECP_PARSE_SIGNATURE
  | ERROR_SECP_RECOVER_PUBKEY
  | ERROR_SECP_SERIALIZE_PUBKEY
  | RET int

text \<open>
  The numbers behind the macros. Those of common.h are not in the sources and are taken
  as the parameter \<open>c\<close>.
\<close>

record common_h =
  witness_size_code :: int
  secp_parse_signature_code :: int
  secp_recover_pubkey_code :: int
  secp_serialize_pubkey_code :: int

fun exit_code :: "common_h \<Rightarrow> error \<Rightarrow> int" where
  "exit_code c ERROR_ARGUMENTS_LEN = -1"
| "exit_code c ERROR_ENCODING = -2"
| "exit_code c ERROR_SYSCALL = -3"
| "exit_code c ERROR_SCRIPT_TOO_LONG = -21"
| "exit_code c ERROR_OVERFLOWING = -51"
| "exit_code c ERROR_1ST_CELL_TYPE_HASH_NOT_MATCH = -52"
| "exit_code c ERROR_LOAD_INPUT = -53"
| "exit_code c ERROR_GROUP_OUTPUT_INVALID = -100"
| "exit_code c ERROR_GROUP_INPUT_INVALID = -101"
| "exit_code c ERROR_CAPACITY_INVALID = -102"
| "exit_code c ERROR_VALIDATOR_SIGNATURE_INVALID = -103"
| "exit_code c ERROR_WITNESS_SIZE = witness_size_code c"
| "exit_code c ERROR_SECP_PARSE_SIGNATURE = secp_parse_signature_code c"
| "exit_code c ERROR_SECP_RECOVER_PUBKEY = secp_recover_pubkey_code c"
| "exit_code c ERROR_SECP_SERIALIZE_PUBKEY = secp_serialize_pubkey_code c"
| "exit_code c (RET r) = r"

text \<open>The exit status of a run: \<open>Inr ()\<close> is \<^verbatim>\<open>return CKB_SUCCESS\<close>.\<close>

definition exit_status :: "common_h \<Rightarrow> error + unit \<Rightarrow> int" where
  "exit_status c r = (case r of Inl err \<Rightarrow> exit_code c err | Inr u \<Rightarrow> CKB_SUCCESS)"

subsection \<open>The host and the libraries\<close>

text \<open>
  A system call that fills a buffer is modelled by its result and the whole item: the
  host stores the item's full length in \<^verbatim>\<open>*len\<close> and as much of the item as the
  buffer holds, so that after the source's test \<^verbatim>\<open>len > SIZE\<close> has passed the buffer
  holds the item itself. The source declares \<^verbatim>\<open>len\<close> in \<^verbatim>\<open>verify_transfer\<close> as
  \<^verbatim>\<open>int\<close> and passes its address where the host stores 64 bits; the model takes the
  length as the 64-bit value the host stores and the hash reads back, and lengths are
  below \<open>2 ^ 31\<close>.

  \<^item> \<open>ckb_load_script\<close>: result and bytes of the running script;
  \<^item> \<open>ckb_load_cell_data e i src\<close>: result of the query for cell \<open>i\<close> of \<open>src\<close> and
    the data of that cell; a successful call with \<^verbatim>\<open>*len\<close> = \<open>n\<close> stores the first
    \<open>min n (length data)\<close> bytes of the data in the buffer and \<open>length data\<close> in
    \<^verbatim>\<open>*len\<close>, a call with any other result stores nothing;
  \<^item> \<open>ckb_load_cell_capacity e i src\<close>: \<^verbatim>\<open>ckb_load_cell_by_field\<close> with
    \<^verbatim>\<open>CKB_CELL_FIELD_CAPACITY\<close>, result and the 64-bit capacity;
  \<^item> \<open>ckb_load_witness e i src\<close>: result and bytes of witness \<open>i\<close> of \<open>src\<close>;
  \<^item> \<open>ckb_load_tx_hash\<close>: result and bytes of the transaction hash;
  \<^item> \<open>calculate_inputs_len\<close> (common.h): the number of inputs of the transaction;
  \<^item> \<open>MolReader_Script_verify\<close>: whether the decoder answers \<^verbatim>\<open>MOL_OK\<close>;
  \<^item> \<open>MolReader_Script_args_raw_bytes\<close>: \<^verbatim>\<open>MolReader_Bytes_raw_bytes\<close> of
    \<^verbatim>\<open>MolReader_Script_get_args\<close>, the bytes of the args;
  \<^item> \<open>extract_witness_lock\<close> (common.h): \<open>None\<close> for a nonzero result, otherwise the
    offset in the witness buffer and the size of the lock segment that it stores in
    \<^verbatim>\<open>lock_bytes_seg\<close> (a decoder that has verified the witness places the segment
    inside it);
  \<^item> \<open>blake2b\<close>: the 32-byte blake2b hash of all bytes fed to one hash state;
  \<^item> \<open>ckb_secp256k1_custom_verify_only_initialize\<close>: its result;
  \<^item> \<open>secp256k1_ecdsa_recoverable_signature_parse_compact\<close>, \<open>secp256k1_ecdsa_recover\<close>,
    \<open>secp256k1_ec_pubkey_serialize\<close>: \<open>None\<close> where the source sees a failure, the
    parsed signature, the public key, and the bytes written otherwise.
\<close>

record env =
  ckb_load_script :: "int \<times> bytes"
  ckb_load_cell_data :: "nat \<Rightarrow> source \<Rightarrow> int \<times> bytes"
  ckb_load_cell_capacity :: "nat \<Rightarrow> source \<Rightarrow> int \<times> 64 word"
  ckb_load_witness :: "nat \<Rightarrow> source \<Rightarrow> int \<times> bytes"
  ckb_load_tx_hash :: "int \<times> bytes"
  calculate_inputs_len :: nat
  MolReader_Script_verify :: "bytes \<Rightarrow> bool"
  MolReader_Script_args_raw_bytes :: "bytes \<Rightarrow> bytes"
  extract_witness_lock :: "bytes \<Rightarrow> (nat \<times> nat) option"
  blake2b :: "bytes \<Rightarrow> bytes"
  ckb_secp256k1_custom_verify_only_initialize :: int
  secp256k1_ecdsa_recoverable_signature_parse_compact :: "bytes \<Rightarrow> byte \<Rightarrow> bytes option"
  secp256k1_ecdsa_recover :: "bytes \<Rightarrow> bytes \<Rightarrow> bytes option"
  secp256k1_ec_pubkey_serialize :: "bytes \<Rightarrow> bytes option"

text \<open>
  Modelled from the spec: the hash accumulator of section 4.3, whose header (blake2b.h) is
  not part of the sources. A state is the sequence of bytes fed so far:
  \<^verbatim>\<open>blake2b_init\<close> starts with none, \<^verbatim>\<open>blake2b_update\<close> appends,
  \<^verbatim>\<open>blake2b_final\<close> yields the hash \<open>blake2b e\<close> of all of them.
\<close>

definition blake2b_init :: bytes where
  "blake2b_init = []"

definition blake2b_update :: "bytes \<Rightarrow> bytes \<Rightarrow> bytes" where
  "blake2b_update ctx data = ctx @ data"

definition blake2b_final :: "env \<Rightarrow> bytes \<Rightarrow> bytes" where
  "blake2b_final e ctx = blake2b e ctx"

text \<open>The eight bytes of a \<^verbatim>\<open>uint64_t\<close> in memory, least significant first.\<close>

definition le64 :: "nat \<Rightarrow> bytes" where
  "le64 n = map (\<lambda>k. ucast (drop_bit (8 * k) (word_of_nat n :: 64 word))) [0..<8]"

text \<open>
  \<^verbatim>\<open>memset(ptr, 0, n)\<close> at offset \<open>off\<close> of a buffer, as far as it reaches into the
  first \<open>length buf\<close> bytes, which are the bytes hashed afterwards.
\<close>

definition memset0 :: "bytes \<Rightarrow> nat \<Rightarrow> nat \<Rightarrow> bytes" where
  "memset0 buf off n = take (length buf) (take off buf @ replicate n 0 @ drop (off + n) buf)"

subsection \<open>\<^verbatim>\<open>get_cell_num\<close>\<close>

text \<open>
  The loop \<^verbatim>\<open>while (1)\<close> leaves only when the host answers
  \<^verbatim>\<open>CKB_INDEX_OUT_OF_BOUND\<close>; every other answer counts. A host that never gives
  that answer keeps the loop running: the value is \<open>None\<close>. The counter is an
  \<^verbatim>\<open>int\<close> in the source; the model counts in \<open>nat\<close>, for counts below \<open>2 ^ 31\<close>.

  The buffer is \<^verbatim>\<open>uint8_t buffer[1]\<close> and \<^verbatim>\<open>len\<close> is set to 1 once, before the
  loop. The host reads \<^verbatim>\<open>len\<close> at each call and a successful call leaves the length
  of the cell's data in it, so the next call offers the host that many bytes of a buffer
  of one. The model threads \<open>len\<close> through the loop. A successful call that stores more
  than one byte, \<open>1 < min len (length data)\<close>, writes beyond the buffer: from there the
  C program has no defined result, and the value is \<open>None\<close> as well. The loop does not
  read the buffer, so the model does not keep its byte.
\<close>

partial_function (option) get_cell_num_loop :: "env \<Rightarrow> source \<Rightarrow> nat \<Rightarrow> nat \<Rightarrow> nat option" where
  "get_cell_num_loop e cell_type i len =
     (let r = ckb_load_cell_data e i cell_type; ret = fst r; data = snd r in
      if ret = CKB_SUCCESS \<and> 1 < min len (length data) then None
      else if ret = CKB_INDEX_OUT_OF_BOUND then Some i
      else get_cell_num_loop e cell_type (i + 1) (if ret = CKB_SUCCESS then length data else len))"

declare get_cell_num_loop.simps [code]

definition get_cell_num :: "env \<Rightarrow> source \<Rightarrow> nat option" where
  "get_cell_num e cell_type = get_cell_num_loop e cell_type 0 1"

subsection \<open>\<^verbatim>\<open>verify_init\<close>\<close>

definition verify_init :: "(error + unit) option" where
  "verify_init = Some (Inr ())"

subsection \<open>\<^verbatim>\<open>verify_transfer\<close>\<close>

text \<open>
  The two witness loops (lines 218-239 and 247-267) have the same body and differ in the
  source and the first index, so one function models both. The state of the loop is the
  index and the hash state.
\<close>

partial_function (option) hash_witnesses ::
  "env \<Rightarrow> source \<Rightarrow> nat \<Rightarrow> bytes \<Rightarrow> (error + bytes) option" where
  "hash_witnesses e src i ctx =
     (let r = ckb_load_witness e i src; ret = fst r; temp = snd r; len = length temp in
      if ret = CKB_INDEX_OUT_OF_BOUND then Some (Inr ctx)
      else if ret \<noteq> CKB_SUCCESS then Some (Inl ERROR_SYSCALL)
      else if len > MAX_WITNESS_SIZE then Some (Inl ERROR_WITNESS_SIZE)
      else hash_witnesses e src (i + 1)
             (blake2b_update (blake2b_update ctx (le64 len)) temp))"

declare hash_witnesses.simps [code]

text \<open>
  Lines 188-269: the message that is signed. \<open>temp\<close> is witness 0 as loaded, \<open>off\<close> and
  \<open>n\<close> are the offset and the size of its lock segment.
\<close>

definition signing_message :: "env \<Rightarrow> bytes \<Rightarrow> nat \<Rightarrow> nat \<Rightarrow> (error + bytes) option" where
  "signing_message e temp off n =
     (let r = ckb_load_tx_hash e; ret = fst r; tx_hash = snd r; witness_len = length temp in
      if ret \<noteq> CKB_SUCCESS then Some (Inl (RET ret))
      else if length tx_hash \<noteq> BLAKE2B_BLOCK_SIZE then Some (Inl ERROR_SYSCALL)
      else
        let ctx = blake2b_update blake2b_init tx_hash;
            temp = memset0 temp off n;
            ctx = blake2b_update ctx (le64 witness_len);
            ctx = blake2b_update ctx temp
        in case hash_witnesses e CKB_SOURCE_GROUP_INPUT 1 ctx of
             None \<Rightarrow> None
           | Some (Inl err) \<Rightarrow> Some (Inl err)
           | Some (Inr ctx) \<Rightarrow>
               (case hash_witnesses e CKB_SOURCE_INPUT (calculate_inputs_len e) ctx of
                  None \<Rightarrow> None
                | Some (Inl err) \<Rightarrow> Some (Inl err)
                | Some (Inr ctx) \<Rightarrow> Some (Inr (blake2b_final e ctx))))"

text \<open>
  Lines 309-316: the scan of the args in steps of \<open>BLAKE160_SIZE\<close>; \<open>True\<close> is the
  \<^verbatim>\<open>return CKB_SUCCESS\<close> inside the loop, \<open>False\<close> is leaving the loop.
\<close>

function match_validator :: "bytes \<Rightarrow> bytes \<Rightarrow> nat \<Rightarrow> bool" where
  "match_validator args temp index =
     (if index + BLAKE160_SIZE \<le> length args then
        if take BLAKE160_SIZE (drop index args) = take BLAKE160_SIZE temp then True
        else match_validator args temp (index + BLAKE160_SIZE)
      else False)"
  by pat_completeness auto
termination
  by (relation "measure (\<lambda>(args, temp, index). length args - index)")
     (auto simp: BLAKE160_SIZE_def)

declare match_validator.simps [simp del]

text \<open>Lines 276-322: recovery of the public key and the match against the args.\<close>

definition verify_signature :: "env \<Rightarrow> bytes \<Rightarrow> bytes \<Rightarrow> bytes \<Rightarrow> error + unit" where
  "verify_signature e args lock_bytes message =
     (let ret = ckb_secp256k1_custom_verify_only_initialize e in
      if ret \<noteq> 0 then Inl (RET ret)
      else case secp256k1_ecdsa_recoverable_signature_parse_compact e lock_bytes
                  (lock_bytes ! RECID_INDEX) of
        None \<Rightarrow> Inl ERROR_SECP_PARSE_SIGNATURE
      | Some signature \<Rightarrow>
         (case secp256k1_ecdsa_recover e signature message of
            None \<Rightarrow> Inl ERROR_SECP_RECOVER_PUBKEY
          | Some pubkey \<Rightarrow>
             (case secp256k1_ec_pubkey_serialize e pubkey of
                None \<Rightarrow> Inl ERROR_SECP_SERIALIZE_PUBKEY
              | Some temp \<Rightarrow>
                 let temp = blake2b_final e (blake2b_update blake2b_init temp) in
                 if match_validator args temp 0 then Inr ()
                 else Inl ERROR_VALIDATOR_SIGNATURE_INVALID)))"

text \<open>The whole of \<^verbatim>\<open>verify_transfer\<close>; lines 108-186 are written out here.\<close>

definition verify_transfer :: "env \<Rightarrow> (error + unit) option" where
  "verify_transfer e =
     (let r = ckb_load_cell_capacity e 0 CKB_SOURCE_GROUP_INPUT;
          ret = fst r; input_capacity = snd r in
      if ret \<noteq> CKB_SUCCESS then Some (Inl (RET ret))
      else
        let r = ckb_load_cell_capacity e 0 CKB_SOURCE_GROUP_OUTPUT;
            ret = fst r; output_capacity = snd r in
        if ret \<noteq> CKB_SUCCESS then Some (Inl (RET ret))
        else if input_capacity > output_capacity then Some (Inl ERROR_CAPACITY_INVALID)
        else
          let r = ckb_load_script e; ret = fst r; script = snd r in
          if ret \<noteq> CKB_SUCCESS then Some (Inl ERROR_SYSCALL)
          else if length script > SCRIPT_SIZE then Some (Inl ERROR_SCRIPT_TOO_LONG)
          else if \<not> MolReader_Script_verify e script then Some (Inl ERROR_ENCODING)
          else
            let args = MolReader_Script_args_raw_bytes e script in
            if length args mod BLAKE160_SIZE \<noteq> 0 then Some (Inl ERROR_ARGUMENTS_LEN)
            else
              let r = ckb_load_witness e 0 CKB_SOURCE_GROUP_INPUT;
                  ret = fst r; temp = snd r in
              if ret \<noteq> CKB_SUCCESS then Some (Inl ERROR_SYSCALL)
              else if length temp > MAX_WITNESS_SIZE then Some (Inl ERROR_WITNESS_SIZE)
              else case extract_witness_lock e temp of
                None \<Rightarrow> Some (Inl ERROR_ENCODING)
              | Some (off, n) \<Rightarrow>
                  if n \<noteq> SIGNATURE_SIZE then Some (Inl ERROR_ARGUMENTS_LEN)
                  else
                    let lock_bytes = take n (drop off temp) in
                    (case signing_message e temp off n of
                       None \<Rightarrow> None
                     | Some (Inl err) \<Rightarrow> Some (Inl err)
                     | Some (Inr message) \<Rightarrow>
                         Some (verify_signature e args lock_bytes message)))"

subsection \<open>\<^verbatim>\<open>main\<close>\<close>

definition main :: "env \<Rightarrow> (error + unit) option" where
  "main e =
     (let r = ckb_load_script e; ret = fst r; script = snd r in
      if ret \<noteq> CKB_SUCCESS then Some (Inl ERROR_SYSCALL)
      else if length script > SCRIPT_SIZE then Some (Inl ERROR_SCRIPT_TOO_LONG)
      else case get_cell_num e CKB_SOURCE_GROUP_INPUT of
        None \<Rightarrow> None
      | Some input_group_num \<Rightarrow>
         (case get_cell_num e CKB_SOURCE_GROUP_OUTPUT of
            None \<Rightarrow> None
          | Some output_group_num \<Rightarrow>
              if output_group_num \<noteq> 1 then Some (Inl ERROR_GROUP_OUTPUT_INVALID)
              else if input_group_num \<noteq> 0 \<and> input_group_num \<noteq> 1
                then Some (Inl ERROR_GROUP_INPUT_INVALID)
              else if input_group_num = 0 then verify_init
              else verify_transfer e))"

section \<open>Notions of the specification\<close>

text \<open>
  The specification speaks of a witness fed to the hash as its length in eight
  little-endian bytes followed by its bytes, of witnesses that load, and of the end of an
  enumeration.
\<close>

definition witness_encoding :: "bytes \<Rightarrow> bytes" where
  "witness_encoding w = le64 (length w) @ w"

definition witness_loaded :: "env \<Rightarrow> nat \<Rightarrow> source \<Rightarrow> bool" where
  "witness_loaded e j src \<longleftrightarrow>
     fst (ckb_load_witness e j src) = CKB_SUCCESS \<and>
     length (snd (ckb_load_witness e j src)) \<le> MAX_WITNESS_SIZE"

definition witness_end :: "env \<Rightarrow> nat \<Rightarrow> source \<Rightarrow> bool" where
  "witness_end e j src \<longleftrightarrow> fst (ckb_load_witness e j src) = CKB_INDEX_OUT_OF_BOUND"

definition encoded_witnesses :: "env \<Rightarrow> source \<Rightarrow> nat \<Rightarrow> nat \<Rightarrow> bytes" where
  "encoded_witnesses e src i n =
     concat (map (\<lambda>j. witness_encoding (snd (ckb_load_witness e j src))) [i..<n])"

text \<open>
  The byte sequence of section 4.3, steps 4 to 7: the transaction hash, witness 0 with the
  lock bytes zeroed, the group witnesses \<open>1, ..., g - 1\<close>, and the witnesses
  \<open>calculate_inputs_len, ..., m - 1\<close> of the whole transaction.
\<close>

definition spec_message_bytes :: "env \<Rightarrow> bytes \<Rightarrow> nat \<Rightarrow> nat \<Rightarrow> nat \<Rightarrow> bytes" where
  "spec_message_bytes e w0 off g m =
     snd (ckb_load_tx_hash e)
     @ le64 (length w0)
     @ (take off w0 @ replicate 65 0 @ drop (off + 65) w0)
     @ encoded_witnesses e CKB_SOURCE_GROUP_INPUT 1 g
     @ encoded_witnesses e CKB_SOURCE_INPUT (calculate_inputs_len e) m"

text \<open>The number of queries among the first \<open>n\<close> that the host answers with success.\<close>

definition successful_queries :: "env \<Rightarrow> source \<Rightarrow> nat \<Rightarrow> nat" where
  "successful_queries e src n =
     length (filter (\<lambda>i. fst (ckb_load_cell_data e i src) = CKB_SUCCESS) [0..<n])"

text \<open>
  The group \<open>src\<close> of the transaction has \<open>n\<close> cells: the host answers the queries for
  the cells \<open>0, ..., n - 1\<close> with success and the query for \<open>n\<close> with
  index-out-of-range.
\<close>

definition group_count :: "env \<Rightarrow> source \<Rightarrow> nat \<Rightarrow> bool" where
  "group_count e src n \<longleftrightarrow>
     (\<forall>j\<in>{0..<n}. fst (ckb_load_cell_data e j src) = CKB_SUCCESS) \<and>
     fst (ckb_load_cell_data e n src) = CKB_INDEX_OUT_OF_BOUND"

text \<open>
  Of two consecutive cells among the \<open>n\<close> cells of the group \<open>src\<close>, one holds at most
  one byte of data.
\<close>

definition one_byte_stores :: "env \<Rightarrow> source \<Rightarrow> nat \<Rightarrow> bool" where
  "one_byte_stores e src n \<longleftrightarrow>
     (\<forall>j\<in>{0..<n - 1}. length (snd (ckb_load_cell_data e j src)) \<le> 1 \<or>
                      length (snd (ckb_load_cell_data e (Suc j) src)) \<le> 1)"

text \<open>The validator set: the aligned 20-byte chunks of the args, in order.\<close>

definition validator_set :: "bytes \<Rightarrow> bytes list" where
  "validator_set args = map (\<lambda>k. take 20 (drop (20 * k) args)) [0..<length args div 20]"

text \<open>What the host holds for the single group input and the single group output.\<close>

definition input_capacity :: "env \<Rightarrow> 64 word" where
  "input_capacity e = snd (ckb_load_cell_capacity e 0 CKB_SOURCE_GROUP_INPUT)"

definition output_capacity :: "env \<Rightarrow> 64 word" where
  "output_capacity e = snd (ckb_load_cell_capacity e 0 CKB_SOURCE_GROUP_OUTPUT)"

definition script_args :: "env \<Rightarrow> bytes" where
  "script_args e = MolReader_Script_args_raw_bytes e (snd (ckb_load_script e))"

definition witness0 :: "env \<Rightarrow> bytes" where
  "witness0 e = snd (ckb_load_witness e 0 CKB_SOURCE_GROUP_INPUT)"

text \<open>
  The short hash of the key recovered from a signature over a digest: the first 20 bytes of
  the blake2b hash of the compressed key, where the three curve operations succeed.
\<close>

definition recovered_short_hash :: "env \<Rightarrow> bytes \<Rightarrow> bytes \<Rightarrow> bytes option" where
  "recovered_short_hash e lock_bytes message =
     (case secp256k1_ecdsa_recoverable_signature_parse_compact e lock_bytes
             (lock_bytes ! RECID_INDEX) of
        None \<Rightarrow> None
      | Some signature \<Rightarrow>
         (case secp256k1_ecdsa_recover e signature message of
            None \<Rightarrow> None
          | Some pubkey \<Rightarrow>
             (case secp256k1_ec_pubkey_serialize e pubkey of
                None \<Rightarrow> None
              | Some compressed \<Rightarrow> Some (take 20 (blake2b e compressed)))))"

text \<open>
  The short hash that a transfer compares with the validators: that of the key recovered
  from the 65 lock bytes of witness 0 over the signing digest. There is none when witness 0
  has no lock of 65 bytes, when the digest is not built (the transaction hash or a
  witness does not load), or when a curve operation fails.
\<close>

definition transfer_short_hash :: "env \<Rightarrow> bytes option" where
  "transfer_short_hash e =
     (case extract_witness_lock e (witness0 e) of
        None \<Rightarrow> None
      | Some (off, n) \<Rightarrow>
          if n \<noteq> 65 then None
          else (case signing_message e (witness0 e) off n of
                  Some (Inr message) \<Rightarrow>
                    recovered_short_hash e (take n (drop off (witness0 e))) message
                | _ \<Rightarrow> None))"

text \<open>
  The three conditions of testable property 2: the capacity does not shrink, the lock
  field of witness 0 has 65 bytes, and the short hash of the key recovered from it over
  the signing digest is one of the validators.
\<close>

definition spec_transfer_conditions :: "env \<Rightarrow> bool" where
  "spec_transfer_conditions e \<longleftrightarrow>
     input_capacity e \<le> output_capacity e \<and>
     (case extract_witness_lock e (witness0 e) of
        None \<Rightarrow> False
      | Some (off, n) \<Rightarrow> n = 65) \<and>
     (case transfer_short_hash e of
        None \<Rightarrow> False
      | Some h \<Rightarrow> h \<in> set (validator_set (script_args e)))"

text \<open>
  What a transfer needs besides: both capacity fields load, the script loads, is at most
  32768 bytes long and passes the decoder, the length of the args is a multiple of 20,
  witness 0 loads and is at most 32768 bytes long, and the secp256k1 context initialises.
\<close>

definition transfer_loads_succeed :: "env \<Rightarrow> bool" where
  "transfer_loads_succeed e \<longleftrightarrow>
     fst (ckb_load_cell_capacity e 0 CKB_SOURCE_GROUP_INPUT) = CKB_SUCCESS \<and>
     fst (ckb_load_cell_capacity e 0 CKB_SOURCE_GROUP_OUTPUT) = CKB_SUCCESS \<and>
     fst (ckb_load_script e) = CKB_SUCCESS \<and>
     length (snd (ckb_load_script e)) \<le> SCRIPT_SIZE \<and>
     MolReader_Script_verify e (snd (ckb_load_script e)) \<and>
     length (script_args e) mod BLAKE160_SIZE = 0 \<and>
     fst (ckb_load_witness e 0 CKB_SOURCE_GROUP_INPUT) = CKB_SUCCESS \<and>
     length (witness0 e) \<le> MAX_WITNESS_SIZE \<and>
     ckb_secp256k1_custom_verify_only_initialize e = 0"

text \<open>
  The codes that the source names at a failing \<^verbatim>\<open>return\<close>; \<open>RET\<close> is not among
  them.
\<close>

definition named_errors :: "error set" where
  "named_errors =
     {ERROR_ARGUMENTS_LEN, ERROR_ENCODING, ERROR_SYSCALL, ERROR_SCRIPT_TOO_LONG,
      ERROR_GROUP_OUTPUT_INVALID, ERROR_GROUP_INPUT_INVALID, ERROR_CAPACITY_INVALID,
      ERROR_VALIDATOR_SIGNATURE_INVALID, ERROR_WITNESS_SIZE, ERROR_SECP_PARSE_SIGNATURE,
      ERROR_SECP_RECOVER_PUBKEY, ERROR_SECP_SERIALIZE_PUBKEY}"

section \<open>Example transactions\<close>

text \<open>
  A transfer in the shape of the end-to-end example of the specification: the args hold
  two validators, the key recovered from the lock of witness 0 hashes to the second, and
  both capacities are 1000. The cell of each group holds 16 bytes of data. The decoders and the cryptography of the example are small
  stand-ins: a script is 33 bytes followed by its args, a witness is 4 bytes, the lock and
  2 more bytes, the hash pads or cuts its input to 32 bytes, and the recovered key is the
  signature followed by the message. One witness follows the last input.
\<close>

definition example_lock :: bytes where
  "example_lock = replicate 64 3 @ [1]"

definition example_env :: env where
  "example_env =
     \<lparr> ckb_load_script = (0, replicate 33 0 @ replicate 20 1 @ replicate 20 3),
       ckb_load_cell_data = (\<lambda>i src. if i = 0 then (0, replicate 16 0) else (1, [])),
       ckb_load_cell_capacity = (\<lambda>i src. (0, 1000)),
       ckb_load_witness = (\<lambda>i src.
          if src = CKB_SOURCE_GROUP_INPUT \<and> i = 0 then (0, replicate 4 8 @ example_lock @ [9, 9])
          else if src = CKB_SOURCE_INPUT \<and> i = 1 then (0, [5, 6])
          else (1, [])),
       ckb_load_tx_hash = (0, replicate 32 7),
       calculate_inputs_len = 1,
       MolReader_Script_verify = (\<lambda>s. 33 \<le> length s),
       MolReader_Script_args_raw_bytes = drop 33,
       extract_witness_lock = (\<lambda>w. if 6 \<le> length w then Some (4, length w - 6) else None),
       blake2b = (\<lambda>bs. take 32 (bs @ replicate 32 0)),
       ckb_secp256k1_custom_verify_only_initialize = 0,
       secp256k1_ecdsa_recoverable_signature_parse_compact =
         (\<lambda>sig recid. if recid < 4 then Some (take 64 sig) else None),
       secp256k1_ecdsa_recover = (\<lambda>sig msg. Some (sig @ msg)),
       secp256k1_ec_pubkey_serialize = (\<lambda>pk. Some (take 33 pk)) \<rparr>"

text \<open>Numbers for the four codes of common.h, for the examples.\<close>

definition example_codes :: common_h where
  "example_codes =
     \<lparr> witness_size_code = -22, secp_parse_signature_code = -14,
       secp_recover_pubkey_code = -11, secp_serialize_pubkey_code = -15 \<rparr>"

text \<open>The same transfer with args of 27 bytes, whose first 20 bytes are the validator.\<close>

definition tx_args_27 :: env where
  "tx_args_27 = example_env \<lparr> ckb_load_script := (0, replicate 33 0 @ replicate 20 3 @ replicate 7 0) \<rparr>"

text \<open>
  A transaction that creates two cells of the group, each with one byte of data, and
  spends none.
\<close>

definition tx_two_outputs :: env where
  "tx_two_outputs = example_env
     \<lparr> ckb_load_cell_data := (\<lambda>i src.
          if src = CKB_SOURCE_GROUP_OUTPUT \<and> i < 2 then (0, [7]) else (1, [])) \<rparr>"

text \<open>
  A transaction that creates two cells of the group, each with 16 bytes of data, and
  spends none.
\<close>

definition tx_two_data_outputs :: env where
  "tx_two_data_outputs = example_env
     \<lparr> ckb_load_cell_data := (\<lambda>i src.
          if src = CKB_SOURCE_GROUP_OUTPUT \<and> i < 2 then (0, replicate 16 0) else (1, [])) \<rparr>"

text \<open>A transaction that creates one cell of the group, with args of 7 bytes.\<close>

definition tx_init_args_7 :: env where
  "tx_init_args_7 = example_env
     \<lparr> ckb_load_script := (0, replicate 33 0 @ replicate 7 0),
       ckb_load_cell_data := (\<lambda>i src.
          if src = CKB_SOURCE_GROUP_OUTPUT \<and> i = 0 then (0, replicate 16 0) else (1, [])) \<rparr>"

text \<open>Two cells of the group, of one byte each, are created by a script of 32769 bytes.\<close>

definition tx_script_too_long :: env where
  "tx_script_too_long = tx_two_outputs \<lparr> ckb_load_script := (0, replicate 32769 0) \<rparr>"

text \<open>
  A host that answers the query for cell 0 with the result 2 (neither success nor
  index-out-of-range) and the query for cell 1 with index-out-of-range.
\<close>

definition tx_cell_error :: env where
  "tx_cell_error = example_env
     \<lparr> ckb_load_cell_data := (\<lambda>i src. if i = 0 then (2, []) else (1, [])) \<rparr>"

text \<open>
  Two cells of the group are spent; one or two are created. Every cell holds one byte of
  data.
\<close>

definition tx_two_inputs :: env where
  "tx_two_inputs = example_env
     \<lparr> ckb_load_cell_data := (\<lambda>i src.
          if src = CKB_SOURCE_GROUP_OUTPUT then (if i = 0 then (0, [7]) else (1, []))
          else (if i < 2 then (0, [7]) else (1, []))) \<rparr>"

definition tx_two_inputs_two_outputs :: env where
  "tx_two_inputs_two_outputs = example_env
     \<lparr> ckb_load_cell_data := (\<lambda>i src. if i < 2 then (0, [7]) else (1, [])) \<rparr>"

text \<open>The transfer with a lock of 64 bytes in witness 0.\<close>

definition tx_short_lock :: env where
  "tx_short_lock = example_env
     \<lparr> ckb_load_witness := (\<lambda>i src.
          if src = CKB_SOURCE_GROUP_INPUT \<and> i = 0 then (0, replicate 4 8 @ replicate 64 3 @ [9, 9])
          else (1, [])) \<rparr>"

text \<open>The transfer on a host whose capacity query for the group input fails with result 2.\<close>

definition tx_capacity_query_fails :: env where
  "tx_capacity_query_fails = example_env
     \<lparr> ckb_load_cell_capacity := (\<lambda>i src. if src = CKB_SOURCE_GROUP_INPUT then (2, 0) else (0, 1000)) \<rparr>"

text \<open>Transfers of a script with empty args: one shrinks the capacity, one keeps it.\<close>

definition tx_no_validators :: env where
  "tx_no_validators = example_env \<lparr> ckb_load_script := (0, replicate 33 0) \<rparr>"

definition tx_no_validators_shrinking :: env where
  "tx_no_validators_shrinking = tx_no_validators
     \<lparr> ckb_load_cell_capacity := (\<lambda>i src. if src = CKB_SOURCE_GROUP_INPUT then (0, 1000) else (0, 999)) \<rparr>"

text \<open>A transfer of a script with empty args whose recovery id is 7.\<close>

definition tx_no_validators_bad_recid :: env where
  "tx_no_validators_bad_recid = tx_no_validators
     \<lparr> ckb_load_witness := (\<lambda>i src.
          if src = CKB_SOURCE_GROUP_INPUT \<and> i = 0 then (0, replicate 4 8 @ replicate 64 3 @ [7] @ [9, 9])
          else (1, [])) \<rparr>"

text \<open>The example transfer from capacity 1000 to capacity 999.\<close>

definition tx_shrinking :: env where
  "tx_shrinking = example_env
     \<lparr> ckb_load_cell_capacity := (\<lambda>i src. if src = CKB_SOURCE_GROUP_INPUT then (0, 1000) else (0, 999)) \<rparr>"

text \<open>
  The transfer with another signature in the lock of witness 0; the key recovered from it
  hashes to none of the two validators.
\<close>

definition tx_other_signature :: env where
  "tx_other_signature = example_env
     \<lparr> ckb_load_witness := (\<lambda>i src.
          if src = CKB_SOURCE_GROUP_INPUT \<and> i = 0 then (0, replicate 4 8 @ replicate 64 4 @ [0] @ [9, 9])
          else if src = CKB_SOURCE_INPUT \<and> i = 1 then (0, [5, 6])
          else (1, [])) \<rparr>"

section \<open>The loops\<close>

subsection \<open>Counting cells\<close>

text \<open>
  A call that succeeds and stores more than one byte ends the run without a result.
\<close>

lemma get_cell_num_loop_overrun:
  assumes "fst (ckb_load_cell_data e i src) = CKB_SUCCESS"
    and "1 < len" and "1 < length (snd (ckb_load_cell_data e i src))"
  shows "get_cell_num_loop e src i len = None"
  using assms by (subst get_cell_num_loop.simps) (simp add: Let_def)

text \<open>
  The run from index \<open>i\<close> returns \<open>n\<close> when \<open>n\<close> is the first index from \<open>i\<close> that
  the host answers with index-out-of-range, \<open>len\<close> is at most 1 unless the run ends at
  once, and every cell before \<open>n - 1\<close> whose query succeeds holds at most one byte.
\<close>

lemma get_cell_num_loop_run:
  assumes "fst (ckb_load_cell_data e n src) = CKB_INDEX_OUT_OF_BOUND"
    and "\<forall>j. i \<le> j \<and> j < n \<longrightarrow> fst (ckb_load_cell_data e j src) \<noteq> CKB_INDEX_OUT_OF_BOUND"
    and "\<forall>j. i \<le> j \<and> Suc j < n \<longrightarrow> fst (ckb_load_cell_data e j src) = CKB_SUCCESS \<longrightarrow>
           length (snd (ckb_load_cell_data e j src)) \<le> 1"
    and "i \<le> n" and "i < n \<longrightarrow> len \<le> 1"
  shows "get_cell_num_loop e src i len = Some n"
  using assms
proof (induction "n - i" arbitrary: i len)
  case 0
  then have "i = n" by simp
  with 0 show ?case
    by (subst get_cell_num_loop.simps)
       (simp add: Let_def CKB_SUCCESS_def CKB_INDEX_OUT_OF_BOUND_def)
next
  case (Suc k)
  then have lt: "i < n" by simp
  with Suc.prems have nb: "fst (ckb_load_cell_data e i src) \<noteq> CKB_INDEX_OUT_OF_BOUND"
    and len: "len \<le> 1" by simp_all
  define len' where
    "len' = (if fst (ckb_load_cell_data e i src) = CKB_SUCCESS
             then length (snd (ckb_load_cell_data e i src)) else len)"
  have "Suc i < n \<longrightarrow> len' \<le> 1"
    using Suc.prems(3) len by (simp add: len'_def)
  then have "get_cell_num_loop e src (i + 1) len' = Some n"
    using Suc.hyps(1)[of "i + 1" len'] Suc.hyps(2) Suc.prems(1-4) lt by simp
  with nb len show ?case
    by (subst get_cell_num_loop.simps) (simp add: Let_def len'_def)
qed

lemma get_cell_num_loop_Some:
  assumes "get_cell_num_loop e src i len = Some n"
  shows "i \<le> n \<and> fst (ckb_load_cell_data e n src) = CKB_INDEX_OUT_OF_BOUND
     \<and> (\<forall>j. i \<le> j \<and> j < n \<longrightarrow> fst (ckb_load_cell_data e j src) \<noteq> CKB_INDEX_OUT_OF_BOUND)"
  using assms
proof (induction rule: get_cell_num_loop.raw_induct[rotated 1, consumes 1])
  case (1 loop e src i len n)
  show ?case
  proof (cases "fst (ckb_load_cell_data e i src) = CKB_INDEX_OUT_OF_BOUND")
    case True
    with 1(2) show ?thesis by (simp add: Let_def split: if_splits)
  next
    case False
    with 1(2) obtain len' where "loop e src (i + 1) len' = Some n"
      by (simp add: Let_def split: if_splits)
    from 1(1)[OF this] have ih: "i + 1 \<le> n"
      "fst (ckb_load_cell_data e n src) = CKB_INDEX_OUT_OF_BOUND"
      "\<forall>j. i + 1 \<le> j \<and> j < n \<longrightarrow> fst (ckb_load_cell_data e j src) \<noteq> CKB_INDEX_OUT_OF_BOUND"
      by simp_all
    have "fst (ckb_load_cell_data e j src) \<noteq> CKB_INDEX_OUT_OF_BOUND" if "i \<le> j" "j < n" for j
    proof (cases "j = i")
      case True with False show ?thesis by simp
    next
      case False with that ih(3) show ?thesis by simp
    qed
    with ih show ?thesis by simp
  qed
qed

text \<open>
  When every cell before \<open>n - 1\<close> whose query succeeds holds at most one byte of data,
  the count is \<open>n\<close> exactly when \<open>n\<close> is the first index that the host answers with
  index-out-of-range.
\<close>

lemma get_cell_num_eq:
  assumes "\<forall>j. Suc j < n \<longrightarrow> fst (ckb_load_cell_data e j src) = CKB_SUCCESS \<longrightarrow>
             length (snd (ckb_load_cell_data e j src)) \<le> 1"
  shows "get_cell_num e src = Some n \<longleftrightarrow>
     fst (ckb_load_cell_data e n src) = CKB_INDEX_OUT_OF_BOUND \<and>
     (\<forall>j<n. fst (ckb_load_cell_data e j src) \<noteq> CKB_INDEX_OUT_OF_BOUND)"
proof
  assume "get_cell_num e src = Some n"
  then have "get_cell_num_loop e src 0 1 = Some n" by (simp add: get_cell_num_def)
  from get_cell_num_loop_Some[OF this]
  show "fst (ckb_load_cell_data e n src) = CKB_INDEX_OUT_OF_BOUND \<and>
     (\<forall>j<n. fst (ckb_load_cell_data e j src) \<noteq> CKB_INDEX_OUT_OF_BOUND)" by simp
next
  assume "fst (ckb_load_cell_data e n src) = CKB_INDEX_OUT_OF_BOUND \<and>
     (\<forall>j<n. fst (ckb_load_cell_data e j src) \<noteq> CKB_INDEX_OUT_OF_BOUND)"
  with assms have "get_cell_num_loop e src 0 1 = Some n"
    by (intro get_cell_num_loop_run) simp_all
  then show "get_cell_num e src = Some n" by (simp add: get_cell_num_def)
qed

text \<open>
  On a group of \<open>n\<close> cells the call for cell \<open>j\<close> offers the host one byte when
  \<open>j = 0\<close> and the length of the data of cell \<open>j - 1\<close> otherwise. When of two
  consecutive cells one holds at most one byte, no call stores beyond the buffer and the
  count is \<open>n\<close>.
\<close>

lemma get_cell_num_loop_cells:
  assumes "group_count e src n" and "i \<le> n"
    and "\<forall>j. i \<le> j \<and> Suc j < n \<longrightarrow> length (snd (ckb_load_cell_data e j src)) \<le> 1 \<or>
           length (snd (ckb_load_cell_data e (Suc j) src)) \<le> 1"
    and "i < n \<longrightarrow> len \<le> 1 \<or> length (snd (ckb_load_cell_data e i src)) \<le> 1"
  shows "get_cell_num_loop e src i len = Some n"
  using assms(2-4)
proof (induction "n - i" arbitrary: i len)
  case 0
  then have "i = n" by simp
  with assms(1) show ?case
    by (subst get_cell_num_loop.simps)
       (simp add: group_count_def Let_def CKB_SUCCESS_def CKB_INDEX_OUT_OF_BOUND_def)
next
  case (Suc k)
  then have lt: "i < n" by simp
  with assms(1) have ok: "fst (ckb_load_cell_data e i src) = CKB_SUCCESS"
    by (simp add: group_count_def)
  from lt Suc.prems(3) have fit: "\<not> 1 < min len (length (snd (ckb_load_cell_data e i src)))"
    by auto
  have "Suc i < n \<longrightarrow> length (snd (ckb_load_cell_data e i src)) \<le> 1 \<or>
          length (snd (ckb_load_cell_data e (Suc i) src)) \<le> 1"
    using Suc.prems(2) by simp
  then have "get_cell_num_loop e src (i + 1) (length (snd (ckb_load_cell_data e i src))) = Some n"
    using Suc.hyps(1)[of "i + 1" "length (snd (ckb_load_cell_data e i src))"]
      Suc.hyps(2) Suc.prems(2) lt by simp
  with ok fit show ?case
    by (subst get_cell_num_loop.simps)
       (simp add: Let_def CKB_SUCCESS_def CKB_INDEX_OUT_OF_BOUND_def)
qed

lemma get_cell_num_group_count:
  assumes "group_count e src n" and "one_byte_stores e src n"
  shows "get_cell_num e src = Some n"
proof -
  from assms(2) have "\<forall>j. 0 \<le> j \<and> Suc j < n \<longrightarrow> length (snd (ckb_load_cell_data e j src)) \<le> 1 \<or>
           length (snd (ckb_load_cell_data e (Suc j) src)) \<le> 1"
    by (simp add: one_byte_stores_def)
  with assms(1) have "get_cell_num_loop e src 0 1 = Some n"
    by (intro get_cell_num_loop_cells) simp_all
  then show ?thesis by (simp add: get_cell_num_def)
qed

text \<open>
  Two consecutive cells of a group that both hold more than one byte of data: the query
  for the second offers the host the length of the data of the first, the host stores
  beyond the buffer, and the count has no value.
\<close>

lemma get_cell_num_loop_two_data_cells:
  assumes "group_count e src n" and "Suc j < n"
    and "1 < length (snd (ckb_load_cell_data e j src))"
    and "1 < length (snd (ckb_load_cell_data e (Suc j) src))"
    and "i \<le> j"
  shows "get_cell_num_loop e src i len = None"
  using assms(5)
proof (induction "j - i" arbitrary: i len)
  case 0
  then have ij: "i = j" by simp
  from assms(1,2) have ok: "fst (ckb_load_cell_data e j src) = CKB_SUCCESS"
    "fst (ckb_load_cell_data e (Suc j) src) = CKB_SUCCESS"
    by (simp_all add: group_count_def)
  have "get_cell_num_loop e src (Suc j) (length (snd (ckb_load_cell_data e j src))) = None"
    using ok(2) assms(3,4) by (rule get_cell_num_loop_overrun)
  with ok(1) ij show ?case
    by (subst get_cell_num_loop.simps)
       (simp add: Let_def CKB_SUCCESS_def CKB_INDEX_OUT_OF_BOUND_def)
next
  case (Suc k)
  then have lt: "i < j" by simp
  with assms(1,2) have ok: "fst (ckb_load_cell_data e i src) = CKB_SUCCESS"
    by (simp add: group_count_def)
  have "get_cell_num_loop e src (i + 1) (length (snd (ckb_load_cell_data e i src))) = None"
    using Suc.hyps(1)[of "i + 1"] Suc.hyps(2) lt by simp
  with ok show ?case
    by (subst get_cell_num_loop.simps)
       (simp add: Let_def CKB_SUCCESS_def CKB_INDEX_OUT_OF_BOUND_def)
qed

lemma get_cell_num_two_data_cells:
  assumes "group_count e src n" and "Suc j < n"
    and "1 < length (snd (ckb_load_cell_data e j src))"
    and "1 < length (snd (ckb_load_cell_data e (Suc j) src))"
  shows "get_cell_num e src = None"
  unfolding get_cell_num_def using assms by (rule get_cell_num_loop_two_data_cells) simp

text \<open>
  On a group of \<open>n\<close> cells the count is \<open>n\<close> when of two consecutive cells one holds
  at most one byte, and has no value otherwise.
\<close>

lemma get_cell_num_group_count_iff:
  assumes "group_count e src n"
  shows "get_cell_num e src = (if one_byte_stores e src n then Some n else None)"
proof (cases "one_byte_stores e src n")
  case True
  with assms show ?thesis by (simp add: get_cell_num_group_count)
next
  case False
  then obtain j where "j < n - 1" and data: "1 < length (snd (ckb_load_cell_data e j src))"
    "1 < length (snd (ckb_load_cell_data e (Suc j) src))"
    by (auto simp: one_byte_stores_def not_le)
  then have "Suc j < n" by simp
  note j = this data
  from get_cell_num_two_data_cells[OF assms j] False show ?thesis by simp
qed

subsection \<open>Hashing witnesses\<close>

lemma hash_witnesses_run:
  assumes "witness_end e n src"
    and "\<forall>j. i \<le> j \<and> j < n \<longrightarrow> witness_loaded e j src"
    and "i \<le> n"
  shows "hash_witnesses e src i ctx = Some (Inr (ctx @ encoded_witnesses e src i n))"
  using assms
proof (induction "n - i" arbitrary: i ctx)
  case 0
  then have "i = n" by simp
  with 0 show ?case
    by (subst hash_witnesses.simps) (simp add: witness_end_def encoded_witnesses_def)
next
  case (Suc k)
  then have lt: "i < n" by simp
  with Suc.prems have li: "witness_loaded e i src" by simp
  have rec: "hash_witnesses e src (Suc i) ctx' = Some (Inr (ctx' @ encoded_witnesses e src (Suc i) n))"
    for ctx'
    using Suc.hyps(1)[of "i + 1"] Suc.hyps(2) Suc.prems lt by simp
  have split: "encoded_witnesses e src i n =
      witness_encoding (snd (ckb_load_witness e i src)) @ encoded_witnesses e src (Suc i) n"
    using lt by (simp add: encoded_witnesses_def upt_conv_Cons)
  show ?case
    using li
    by (subst hash_witnesses.simps)
       (simp add: Let_def witness_loaded_def rec split blake2b_update_def witness_encoding_def
          CKB_SUCCESS_def CKB_INDEX_OUT_OF_BOUND_def)
qed

lemma hash_witnesses_agree_Some:
  assumes "hash_witnesses e src i ctx = Some r"
  shows "(\<forall>j. i \<le> j \<longrightarrow> ckb_load_witness e' j src = ckb_load_witness e j src)
     \<longrightarrow> hash_witnesses e' src i ctx = Some r"
  using assms
proof (induction rule: hash_witnesses.raw_induct[rotated 1, consumes 1])
  case (1 loop e src i ctx r)
  show ?case
  proof
    assume agree: "\<forall>j. i \<le> j \<longrightarrow> ckb_load_witness e' j src = ckb_load_witness e j src"
    then have here: "ckb_load_witness e' i src = ckb_load_witness e i src" by simp
    from agree have later: "\<forall>j. i + 1 \<le> j \<longrightarrow> ckb_load_witness e' j src = ckb_load_witness e j src"
      by simp
    show "hash_witnesses e' src i ctx = Some r"
    proof (cases "fst (ckb_load_witness e i src) = CKB_SUCCESS
              \<and> fst (ckb_load_witness e i src) \<noteq> CKB_INDEX_OUT_OF_BOUND
              \<and> \<not> length (snd (ckb_load_witness e i src)) > MAX_WITNESS_SIZE")
      case True
      with 1(2) have "loop e src (i + 1)
          (blake2b_update (blake2b_update ctx (le64 (length (snd (ckb_load_witness e i src)))))
             (snd (ckb_load_witness e i src))) = Some r"
        by (simp add: Let_def)
      from 1(1)[OF this] later True here show ?thesis
        by (subst hash_witnesses.simps) (simp add: Let_def)
    next
      case False
      with 1(2) here show ?thesis
        by (subst hash_witnesses.simps) (auto simp add: Let_def split: if_splits)
    qed
  qed
qed

lemma hash_witnesses_agree:
  assumes "\<forall>j. i \<le> j \<longrightarrow> ckb_load_witness e' j src = ckb_load_witness e j src"
  shows "hash_witnesses e' src i ctx = hash_witnesses e src i ctx"
proof (cases "hash_witnesses e src i ctx")
  case (Some r)
  with hash_witnesses_agree_Some[OF Some, of e'] assms show ?thesis by simp
next
  case None
  show ?thesis
  proof (cases "hash_witnesses e' src i ctx")
    case None2: None
    with None show ?thesis by simp
  next
    case (Some r)
    from hash_witnesses_agree_Some[OF Some, of e] assms have "hash_witnesses e src i ctx = Some r"
      by simp
    with None show ?thesis by simp
  qed
qed

lemma hash_witnesses_errors:
  assumes "hash_witnesses e src i ctx = Some (Inl x)"
  shows "x = ERROR_SYSCALL \<or> x = ERROR_WITNESS_SIZE"
proof -
  have "hash_witnesses e src i ctx = Some r \<Longrightarrow> r = Inl x \<longrightarrow> x = ERROR_SYSCALL \<or> x = ERROR_WITNESS_SIZE"
    for r
  proof (induction rule: hash_witnesses.raw_induct[rotated 1, consumes 1])
    case (1 loop e src i ctx r)
    show ?case
    proof (cases "fst (ckb_load_witness e i src) = CKB_SUCCESS
              \<and> fst (ckb_load_witness e i src) \<noteq> CKB_INDEX_OUT_OF_BOUND
              \<and> \<not> length (snd (ckb_load_witness e i src)) > MAX_WITNESS_SIZE")
      case True
      with 1(2) have "loop e src (i + 1)
          (blake2b_update (blake2b_update ctx (le64 (length (snd (ckb_load_witness e i src)))))
             (snd (ckb_load_witness e i src))) = Some r"
        by (simp add: Let_def)
      from 1(1)[OF this] show ?thesis .
    next
      case False
      with 1(2) show ?thesis
        by (auto simp add: Let_def split: if_splits)
    qed
  qed
  with assms show ?thesis by blast
qed

subsection \<open>The stages of the transfer check\<close>

lemma signing_message_errors:
  assumes "signing_message e temp off n = Some (Inl x)"
  shows "x = ERROR_SYSCALL \<or> x = ERROR_WITNESS_SIZE
     \<or> (x = RET (fst (ckb_load_tx_hash e)) \<and> fst (ckb_load_tx_hash e) \<noteq> CKB_SUCCESS)"
  using assms
  by (auto simp: signing_message_def Let_def split: if_splits option.splits sum.splits
      dest: hash_witnesses_errors)

lemma verify_signature_errors:
  assumes "verify_signature e args lock_bytes message = Inl x"
  shows "x = ERROR_SECP_PARSE_SIGNATURE \<or> x = ERROR_SECP_RECOVER_PUBKEY
     \<or> x = ERROR_SECP_SERIALIZE_PUBKEY \<or> x = ERROR_VALIDATOR_SIGNATURE_INVALID
     \<or> (x = RET (ckb_secp256k1_custom_verify_only_initialize e)
          \<and> ckb_secp256k1_custom_verify_only_initialize e \<noteq> 0)"
  using assms
  by (auto simp: verify_signature_def Let_def split: if_splits option.splits)

lemma match_validator_from:
  "match_validator args temp (20 * k) \<longleftrightarrow>
     (\<exists>j. k \<le> j \<and> j < length args div 20 \<and> take 20 (drop (20 * j) args) = take 20 temp)"
proof (induction "length args div 20 - k" arbitrary: k)
  case 0
  then have "\<not> 20 * k + 20 \<le> length args" by auto
  moreover from 0 have "\<not> (\<exists>j. k \<le> j \<and> j < length args div 20)" by auto
  ultimately show ?case
    by (subst match_validator.simps) (auto simp: BLAKE160_SIZE_def)
next
  case (Suc d)
  then have lt: "k < length args div 20" by simp
  then have fits: "20 * k + 20 \<le> length args" by auto
  have ih: "match_validator args temp (20 * Suc k) \<longleftrightarrow>
     (\<exists>j. Suc k \<le> j \<and> j < length args div 20 \<and> take 20 (drop (20 * j) args) = take 20 temp)"
    using Suc.hyps(1)[of "Suc k"] Suc.hyps(2) by simp
  have step: "match_validator args temp (20 * k) \<longleftrightarrow>
      take 20 (drop (20 * k) args) = take 20 temp \<or> match_validator args temp (20 * Suc k)"
    using fits by (subst match_validator.simps) (simp add: BLAKE160_SIZE_def add.commute)
  show ?case
    unfolding step ih using lt
    by (metis Suc_leI le_eq_less_or_eq Suc_le_lessD order_refl)
qed

lemma match_validator_iff:
  "match_validator args temp 0 \<longleftrightarrow> take 20 temp \<in> set (validator_set args)"
proof -
  have "take 20 temp \<in> set (validator_set args) \<longleftrightarrow>
      (\<exists>j. j < length args div 20 \<and> take 20 (drop (20 * j) args) = take 20 temp)"
  proof
    assume "take 20 temp \<in> set (validator_set args)"
    then obtain j where "j < length args div 20" "take 20 temp = take 20 (drop (20 * j) args)"
      by (auto simp: validator_set_def)
    then have "j < length args div 20 \<and> take 20 (drop (20 * j) args) = take 20 temp"
      by simp
    then show "\<exists>j. j < length args div 20 \<and> take 20 (drop (20 * j) args) = take 20 temp" ..
  next
    assume "\<exists>j. j < length args div 20 \<and> take 20 (drop (20 * j) args) = take 20 temp"
    then obtain j where j: "j < length args div 20" "take 20 (drop (20 * j) args) = take 20 temp"
      by blast
    from j(1) have "take 20 (drop (20 * j) args) \<in> set (validator_set args)"
      unfolding validator_set_def by (simp add: image_iff) (rule bexI[of _ j]; simp)
    with j(2) show "take 20 temp \<in> set (validator_set args)" by simp
  qed
  with match_validator_from[of args temp 0] show ?thesis by simp
qed

lemma match_validator_Nil: "\<not> match_validator [] temp 0"
  by (subst match_validator.simps) (simp add: BLAKE160_SIZE_def)

lemma verify_signature_accept_iff:
  "verify_signature e args lock_bytes message = Inr () \<longleftrightarrow>
     ckb_secp256k1_custom_verify_only_initialize e = 0 \<and>
     (\<exists>h. recovered_short_hash e lock_bytes message = Some h \<and> h \<in> set (validator_set args))"
  by (auto simp: verify_signature_def recovered_short_hash_def Let_def match_validator_iff
      blake2b_final_def blake2b_update_def blake2b_init_def split: option.splits)

lemmas status_defs = CKB_SUCCESS_def CKB_INDEX_OUT_OF_BOUND_def

lemma main_counts:
  assumes "fst (ckb_load_script e) = CKB_SUCCESS"
    and "length (snd (ckb_load_script e)) \<le> SCRIPT_SIZE"
    and "get_cell_num e CKB_SOURCE_GROUP_INPUT = Some gi"
    and "get_cell_num e CKB_SOURCE_GROUP_OUTPUT = Some go"
  shows "main e =
     (if go \<noteq> 1 then Some (Inl ERROR_GROUP_OUTPUT_INVALID)
      else if gi \<noteq> 0 \<and> gi \<noteq> 1 then Some (Inl ERROR_GROUP_INPUT_INVALID)
      else if gi = 0 then verify_init
      else verify_transfer e)"
  using assms by (simp add: main_def Let_def)

lemmas size_defs = SCRIPT_SIZE_def MAX_WITNESS_SIZE_def BLAKE160_SIZE_def SIGNATURE_SIZE_def
  BLAKE2B_BLOCK_SIZE_def RECID_INDEX_def

lemmas host_defs = input_capacity_def output_capacity_def script_args_def witness0_def

lemma le64_nth:
  assumes "k < 8"
  shows "unat (le64 n ! k) = (n mod 2 ^ 64) div 256 ^ k mod 256"
proof -
  have "le64 n ! k = ucast (drop_bit (8 * k) (word_of_nat n :: 64 word))"
    using assms by (simp add: le64_def)
  moreover have "unat (ucast (drop_bit (8 * k) (word_of_nat n :: 64 word)) :: 8 word) =
      unat (drop_bit (8 * k) (word_of_nat n :: 64 word)) mod 256"
    by (simp add: unsigned_ucast_eq take_bit_eq_mod)
  moreover have "unat (drop_bit (8 * k) (word_of_nat n :: 64 word)) = (n mod 2 ^ 64) div 2 ^ (8 * k)"
  proof -
    have "unat (drop_bit (8 * k) (word_of_nat n :: 64 word)) =
        drop_bit (8 * k) (unat (word_of_nat n :: 64 word))"
      by (rule unat_drop_bit_eq)
    also have "unat (word_of_nat n :: 64 word) = n mod 2 ^ 64"
      by (simp add: unat_of_nat)
    finally show ?thesis by (simp add: drop_bit_eq_div)
  qed
  moreover have "(2::nat) ^ (8 * k) = 256 ^ k"
    by (simp add: power_mult)
  ultimately show ?thesis by simp
qed

lemma digits_256:
  fixes x :: nat
  shows "x mod 256 ^ 8 = (\<Sum>k<8. (x div 256 ^ k mod 256) * 256 ^ k)"
proof -
  have step: "x mod (256 ^ Suc j) = x mod 256 ^ j + (x div 256 ^ j mod 256) * 256 ^ j" for j
  proof -
    have "x mod (256 ^ j * 256) = 256 ^ j * (x div 256 ^ j mod 256) + x mod 256 ^ j"
      by (rule mod_mult2_eq)
    then show ?thesis by (simp add: mult.commute)
  qed
  have "x mod 256 ^ j = (\<Sum>k<j. (x div 256 ^ k mod 256) * 256 ^ k)" for j
  proof (induction j)
    case 0
    show ?case by simp
  next
    case (Suc j)
    then show ?case using step[of j] by simp
  qed
  then show ?thesis .
qed

lemma le64_little_endian:
  "length (le64 n) = 8 \<and> (\<Sum>k<8. unat (le64 n ! k) * 256 ^ k) = n mod 2 ^ 64"
proof -
  have "(\<Sum>k<8. unat (le64 n ! k) * 256 ^ k) =
      (\<Sum>k<8. ((n mod 2 ^ 64) div 256 ^ k mod 256) * 256 ^ k)"
    by (rule sum.cong) (simp_all add: le64_nth)
  also have "\<dots> = (n mod 2 ^ 64) mod 256 ^ 8"
    by (rule digits_256[symmetric])
  also have "\<dots> = n mod 2 ^ 64"
  proof -
    have "(256::nat) ^ 8 = 2 ^ 64" by simp
    then show ?thesis by simp
  qed
  finally show ?thesis by (simp add: le64_def)
qed

lemma memset0_inside:
  "off + n \<le> length buf \<Longrightarrow> memset0 buf off n = take off buf @ replicate n 0 @ drop (off + n) buf"
  by (simp add: memset0_def)

lemma memset0_lock:
  "length lock = n \<Longrightarrow> memset0 (pre @ lock @ post) (length pre) n = pre @ replicate n 0 @ post"
  by (simp add: memset0_def)

lemma length_memset0 [simp]: "length (memset0 buf off n) = length buf"
  by (simp add: memset0_def)

lemma signing_message_run:
  assumes "fst (ckb_load_tx_hash e) = CKB_SUCCESS"
    and "length (snd (ckb_load_tx_hash e)) = BLAKE2B_BLOCK_SIZE"
    and "1 \<le> g"
    and "\<forall>j. 1 \<le> j \<and> j < g \<longrightarrow> witness_loaded e j CKB_SOURCE_GROUP_INPUT"
    and "witness_end e g CKB_SOURCE_GROUP_INPUT"
    and "calculate_inputs_len e \<le> m"
    and "\<forall>j. calculate_inputs_len e \<le> j \<and> j < m \<longrightarrow> witness_loaded e j CKB_SOURCE_INPUT"
    and "witness_end e m CKB_SOURCE_INPUT"
  shows "signing_message e temp off n =
     Some (Inr (blake2b e
       (snd (ckb_load_tx_hash e) @ le64 (length temp) @ memset0 temp off n
        @ encoded_witnesses e CKB_SOURCE_GROUP_INPUT 1 g
        @ encoded_witnesses e CKB_SOURCE_INPUT (calculate_inputs_len e) m)))"
proof -
  have group: "hash_witnesses e CKB_SOURCE_GROUP_INPUT (Suc 0) ctx =
      Some (Inr (ctx @ encoded_witnesses e CKB_SOURCE_GROUP_INPUT (Suc 0) g))" for ctx
    using assms(3,4,5) by (intro hash_witnesses_run) simp_all
  have extra: "hash_witnesses e CKB_SOURCE_INPUT (calculate_inputs_len e) ctx =
      Some (Inr (ctx @ encoded_witnesses e CKB_SOURCE_INPUT (calculate_inputs_len e) m))" for ctx
    using assms(6,7,8) by (intro hash_witnesses_run) simp_all
  show ?thesis
    using assms(1,2)
    by (simp add: signing_message_def Let_def group extra blake2b_init_def blake2b_update_def
        blake2b_final_def)
qed

lemma verify_transfer_capacity:
  assumes "fst (ckb_load_cell_capacity e 0 CKB_SOURCE_GROUP_INPUT) = CKB_SUCCESS"
    and "fst (ckb_load_cell_capacity e 0 CKB_SOURCE_GROUP_OUTPUT) = CKB_SUCCESS"
    and "output_capacity e < input_capacity e"
  shows "verify_transfer e = Some (Inl ERROR_CAPACITY_INVALID)"
  using assms by (simp add: verify_transfer_def Let_def host_defs)

lemma verify_transfer_result:
  assumes "transfer_loads_succeed e"
    and "input_capacity e \<le> output_capacity e"
    and "transfer_short_hash e = Some h"
  shows "verify_transfer e =
     Some (if h \<in> set (validator_set (script_args e)) then Inr ()
           else Inl ERROR_VALIDATOR_SIGNATURE_INVALID)"
proof -
  from assms(3) obtain off message where
    lock: "extract_witness_lock e (witness0 e) = Some (off, 65)"
    and msg: "signing_message e (witness0 e) off 65 = Some (Inr message)"
    and rec: "recovered_short_hash e (take 65 (drop off (witness0 e))) message = Some h"
    by (auto simp: transfer_short_hash_def split: option.splits if_splits sum.splits)
  have sig: "verify_signature e (script_args e) (take 65 (drop off (witness0 e))) message =
      (if h \<in> set (validator_set (script_args e)) then Inr ()
       else Inl ERROR_VALIDATOR_SIGNATURE_INVALID)"
    using assms(1) rec
    by (auto simp: verify_signature_def recovered_short_hash_def transfer_loads_succeed_def
        Let_def match_validator_iff blake2b_final_def blake2b_update_def blake2b_init_def
        split: option.splits)
  from assms(2) have nlt: "\<not> output_capacity e < input_capacity e" by simp
  have "verify_transfer e =
      Some (verify_signature e (script_args e) (take 65 (drop off (witness0 e))) message)"
    using assms(1) nlt lock msg
    by (simp add: verify_transfer_def transfer_loads_succeed_def Let_def host_defs
        SIGNATURE_SIZE_def del: not_less)
  with sig show ?thesis by simp
qed

lemma verify_transfer_accept:
  assumes "verify_transfer e = Some (Inr ())"
  shows "transfer_loads_succeed e \<and> input_capacity e \<le> output_capacity e \<and>
     (\<exists>h. transfer_short_hash e = Some h \<and> h \<in> set (validator_set (script_args e)))"
proof -
  from assms have loads: "fst (ckb_load_cell_capacity e 0 CKB_SOURCE_GROUP_INPUT) = CKB_SUCCESS"
    "fst (ckb_load_cell_capacity e 0 CKB_SOURCE_GROUP_OUTPUT) = CKB_SUCCESS"
    "input_capacity e \<le> output_capacity e"
    "fst (ckb_load_script e) = CKB_SUCCESS"
    "length (snd (ckb_load_script e)) \<le> SCRIPT_SIZE"
    "MolReader_Script_verify e (snd (ckb_load_script e))"
    "length (script_args e) mod BLAKE160_SIZE = 0"
    "fst (ckb_load_witness e 0 CKB_SOURCE_GROUP_INPUT) = CKB_SUCCESS"
    "length (witness0 e) \<le> MAX_WITNESS_SIZE"
    by (simp_all add: verify_transfer_def Let_def host_defs not_less split: if_splits)
  with assms obtain off message where
    lock: "extract_witness_lock e (witness0 e) = Some (off, 65)"
    and msg: "signing_message e (witness0 e) off 65 = Some (Inr message)"
    and sig: "verify_signature e (script_args e) (take 65 (drop off (witness0 e))) message = Inr ()"
    by (auto simp: verify_transfer_def Let_def host_defs SIGNATURE_SIZE_def
        split: if_splits option.splits sum.splits)
  from sig have "ckb_secp256k1_custom_verify_only_initialize e = 0"
    and "\<exists>h. recovered_short_hash e (take 65 (drop off (witness0 e))) message = Some h
           \<and> h \<in> set (validator_set (script_args e))"
    by (simp_all add: verify_signature_accept_iff)
  with loads lock msg show ?thesis
    by (auto simp: transfer_loads_succeed_def transfer_short_hash_def)
qed

lemma verify_transfer_accept_iff:
  "verify_transfer e = Some (Inr ()) \<longleftrightarrow>
     transfer_loads_succeed e \<and> input_capacity e \<le> output_capacity e \<and>
     (\<exists>h. transfer_short_hash e = Some h \<and> h \<in> set (validator_set (script_args e)))"
  using verify_transfer_accept[of e] verify_transfer_result[of e] by auto

lemma verify_transfer_errors:
  assumes "verify_transfer e = Some (Inl x)"
  shows "x \<in> named_errors \<or>
     (\<exists>k. x = RET k \<and> k \<noteq> 0 \<and>
        (k = fst (ckb_load_cell_capacity e 0 CKB_SOURCE_GROUP_INPUT) \<or>
         k = fst (ckb_load_cell_capacity e 0 CKB_SOURCE_GROUP_OUTPUT) \<or>
         k = fst (ckb_load_tx_hash e) \<or>
         k = ckb_secp256k1_custom_verify_only_initialize e))"
  using assms
  by (auto simp: verify_transfer_def Let_def named_errors_def CKB_SUCCESS_def
      split: if_splits option.splits sum.splits
      dest!: signing_message_errors verify_signature_errors)

lemma main_transfer:
  assumes "fst (ckb_load_script e) = CKB_SUCCESS"
    and "length (snd (ckb_load_script e)) \<le> SCRIPT_SIZE"
    and "get_cell_num e CKB_SOURCE_GROUP_INPUT = Some 1"
    and "get_cell_num e CKB_SOURCE_GROUP_OUTPUT = Some 1"
  shows "main e = verify_transfer e"
  using main_counts[OF assms] by simp

lemma main_Some_script:
  assumes "main e = Some (Inr ())"
  shows "fst (ckb_load_script e) = CKB_SUCCESS \<and> length (snd (ckb_load_script e)) \<le> SCRIPT_SIZE"
  using assms by (simp add: main_def Let_def not_less split: if_splits)

lemma main_errors:
  assumes "main e = Some (Inl x)"
  shows "x \<in> named_errors \<or>
     (\<exists>k. x = RET k \<and> k \<noteq> 0 \<and>
        (k = fst (ckb_load_cell_capacity e 0 CKB_SOURCE_GROUP_INPUT) \<or>
         k = fst (ckb_load_cell_capacity e 0 CKB_SOURCE_GROUP_OUTPUT) \<or>
         k = fst (ckb_load_tx_hash e) \<or>
         k = ckb_secp256k1_custom_verify_only_initialize e))"
proof (cases "fst (ckb_load_script e) = CKB_SUCCESS \<and> length (snd (ckb_load_script e)) \<le> SCRIPT_SIZE")
  case False
  with assms show ?thesis
    by (auto simp: main_def Let_def named_errors_def split: if_splits)
next
  case True
  with assms obtain gi go where
    counts: "get_cell_num e CKB_SOURCE_GROUP_INPUT = Some gi"
      "get_cell_num e CKB_SOURCE_GROUP_OUTPUT = Some go"
    by (auto simp: main_def Let_def split: option.splits)
  from True counts have m: "main e =
     (if go \<noteq> 1 then Some (Inl ERROR_GROUP_OUTPUT_INVALID)
      else if gi \<noteq> 0 \<and> gi \<noteq> 1 then Some (Inl ERROR_GROUP_INPUT_INVALID)
      else if gi = 0 then verify_init
      else verify_transfer e)"
    by (intro main_counts) simp_all
  show ?thesis
  proof (cases "go = 1 \<and> gi = 1")
    case True
    with m assms have "verify_transfer e = Some (Inl x)" by simp
    then show ?thesis by (rule verify_transfer_errors)
  next
    case False
    with m assms show ?thesis
      by (auto simp: named_errors_def verify_init_def split: if_splits)
  qed
qed

lemma named_errors_negative:
  assumes "x \<in> named_errors"
    and "witness_size_code c < 0" and "secp_parse_signature_code c < 0"
    and "secp_recover_pubkey_code c < 0" and "secp_serialize_pubkey_code c < 0"
  shows "exit_code c x < 0"
  using assms by (auto simp: named_errors_def)

lemma transfer_short_hash_lock:
  assumes "transfer_short_hash e = Some h"
  shows "\<exists>off. extract_witness_lock e (witness0 e) = Some (off, 65)"
  using assms by (auto simp: transfer_short_hash_def split: option.splits if_splits)

lemma verify_transfer_after_capacity:
  assumes "input_capacity e \<le> output_capacity e"
  shows "verify_transfer e \<noteq> Some (Inl ERROR_CAPACITY_INVALID)"
proof
  assume "verify_transfer e = Some (Inl ERROR_CAPACITY_INVALID)"
  moreover from assms have "\<not> output_capacity e < input_capacity e" by simp
  ultimately show False
    by (auto simp: verify_transfer_def Let_def host_defs
        simp del: not_less
        split: if_splits option.splits sum.splits
        dest!: signing_message_errors verify_signature_errors)
qed

lemma verify_transfer_args_length:
  assumes "fst (ckb_load_cell_capacity e 0 CKB_SOURCE_GROUP_INPUT) = CKB_SUCCESS"
    and "fst (ckb_load_cell_capacity e 0 CKB_SOURCE_GROUP_OUTPUT) = CKB_SUCCESS"
    and "input_capacity e \<le> output_capacity e"
    and "fst (ckb_load_script e) = CKB_SUCCESS"
    and "length (snd (ckb_load_script e)) \<le> SCRIPT_SIZE"
    and "MolReader_Script_verify e (snd (ckb_load_script e))"
    and "length (script_args e) mod 20 \<noteq> 0"
  shows "verify_transfer e = Some (Inl ERROR_ARGUMENTS_LEN)"
proof -
  from assms(3) have "\<not> output_capacity e < input_capacity e" by simp
  with assms(1,2,4-7) show ?thesis
    by (simp add: verify_transfer_def Let_def host_defs BLAKE160_SIZE_def del: not_less)
qed

lemma verify_transfer_lock_size:
  assumes "transfer_loads_succeed e"
    and "input_capacity e \<le> output_capacity e"
    and "extract_witness_lock e (witness0 e) = Some (off, n)"
    and "n \<noteq> 65"
  shows "verify_transfer e = Some (Inl ERROR_ARGUMENTS_LEN)"
proof -
  from assms(2) have "\<not> output_capacity e < input_capacity e" by simp
  with assms(1,3,4) show ?thesis
    by (simp add: verify_transfer_def transfer_loads_succeed_def Let_def host_defs
        SIGNATURE_SIZE_def del: not_less)
qed

lemma verify_transfer_signature:
  assumes "transfer_loads_succeed e"
    and "input_capacity e \<le> output_capacity e"
    and "extract_witness_lock e (witness0 e) = Some (off, 65)"
    and "signing_message e (witness0 e) off 65 = Some (Inr message)"
  shows "verify_transfer e =
     Some (verify_signature e (script_args e) (take 65 (drop off (witness0 e))) message)"
proof -
  from assms(2) have "\<not> output_capacity e < input_capacity e" by simp
  with assms(1,3,4) show ?thesis
    by (simp add: verify_transfer_def transfer_loads_succeed_def Let_def host_defs
        SIGNATURE_SIZE_def del: not_less)
qed

lemma main_init:
  assumes "fst (ckb_load_script e) = CKB_SUCCESS"
    and "length (snd (ckb_load_script e)) \<le> SCRIPT_SIZE"
    and "get_cell_num e CKB_SOURCE_GROUP_INPUT = Some 0"
    and "get_cell_num e CKB_SOURCE_GROUP_OUTPUT = Some 1"
  shows "main e = Some (Inr ())"
  using main_counts[OF assms] by (simp add: verify_init_def)

lemma main_status_zero:
  assumes "main e = Some r"
    and "witness_size_code c \<noteq> 0" and "secp_parse_signature_code c \<noteq> 0"
    and "secp_recover_pubkey_code c \<noteq> 0" and "secp_serialize_pubkey_code c \<noteq> 0"
  shows "exit_status c r = 0 \<longleftrightarrow> r = Inr ()"
proof (cases r)
  case (Inr u)
  then show ?thesis by (simp add: exit_status_def CKB_SUCCESS_def)
next
  case (Inl x)
  with assms(1) have "main e = Some (Inl x)" by simp
  from main_errors[OF this] have "exit_code c x \<noteq> 0"
    using assms(2-5) by (auto simp: named_errors_def)
  with Inl show ?thesis by (simp add: exit_status_def)
qed

lemma verify_transfer_status_capacity:
  assumes "fst (ckb_load_cell_capacity e 0 CKB_SOURCE_GROUP_INPUT) = CKB_SUCCESS"
    and "fst (ckb_load_cell_capacity e 0 CKB_SOURCE_GROUP_OUTPUT) = CKB_SUCCESS"
    and "fst (ckb_load_tx_hash e) \<noteq> -102"
    and "ckb_secp256k1_custom_verify_only_initialize e \<noteq> -102"
    and "witness_size_code c \<noteq> -102" and "secp_parse_signature_code c \<noteq> -102"
    and "secp_recover_pubkey_code c \<noteq> -102" and "secp_serialize_pubkey_code c \<noteq> -102"
    and "verify_transfer e = Some r"
  shows "exit_status c r = -102 \<longleftrightarrow> r = Inl ERROR_CAPACITY_INVALID"
proof (cases r)
  case (Inr u)
  then show ?thesis by (simp add: exit_status_def CKB_SUCCESS_def)
next
  case (Inl x)
  with assms(9) have "verify_transfer e = Some (Inl x)" by simp
  from verify_transfer_errors[OF this] have "exit_code c x = -102 \<longleftrightarrow> x = ERROR_CAPACITY_INVALID"
    using assms(1-8) by (auto simp: named_errors_def CKB_SUCCESS_def)
  with Inl show ?thesis by (simp add: exit_status_def)
qed

section \<open>Facts about the example transactions\<close>

lemma example_counts:
  assumes "ckb_load_cell_data e = ckb_load_cell_data example_env"
  shows "get_cell_num e src = Some 1"
  using assms by (simp add: get_cell_num_eq example_env_def status_defs)

text \<open>
  Two group outputs of 16 bytes each: the count of the group outputs has no value, and
  neither has \<^verbatim>\<open>main\<close>.
\<close>

lemma tx_two_data_outputs_no_result:
  "group_count tx_two_data_outputs CKB_SOURCE_GROUP_INPUT 0"
  "group_count tx_two_data_outputs CKB_SOURCE_GROUP_OUTPUT 2"
  "get_cell_num tx_two_data_outputs CKB_SOURCE_GROUP_INPUT = Some 0"
  "get_cell_num tx_two_data_outputs CKB_SOURCE_GROUP_OUTPUT = None"
  "main tx_two_data_outputs = None"
proof -
  show gi: "group_count tx_two_data_outputs CKB_SOURCE_GROUP_INPUT 0"
    by (simp add: group_count_def tx_two_data_outputs_def status_defs)
  show go: "group_count tx_two_data_outputs CKB_SOURCE_GROUP_OUTPUT 2"
    by (simp add: group_count_def tx_two_data_outputs_def status_defs)
  from gi show c0: "get_cell_num tx_two_data_outputs CKB_SOURCE_GROUP_INPUT = Some 0"
    by (rule get_cell_num_group_count) (simp add: one_byte_stores_def)
  from go show c1: "get_cell_num tx_two_data_outputs CKB_SOURCE_GROUP_OUTPUT = None"
    by (rule get_cell_num_two_data_cells[where j = 0]) (simp_all add: tx_two_data_outputs_def)
  from c0 c1 show "main tx_two_data_outputs = None"
    by (simp add: main_def Let_def tx_two_data_outputs_def example_env_def status_defs SCRIPT_SIZE_def)
qed

lemma example_message:
  assumes "\<forall>j src. 0 < j \<longrightarrow> ckb_load_witness e j src = ckb_load_witness example_env j src"
    and "ckb_load_tx_hash e = ckb_load_tx_hash example_env"
    and "calculate_inputs_len e = calculate_inputs_len example_env"
  shows "signing_message e temp off n =
     Some (Inr (blake2b e
       (snd (ckb_load_tx_hash e) @ le64 (length temp) @ memset0 temp off n
        @ encoded_witnesses e CKB_SOURCE_GROUP_INPUT 1 1
        @ encoded_witnesses e CKB_SOURCE_INPUT (calculate_inputs_len e) 2)))"
proof (rule signing_message_run)
  show "fst (ckb_load_tx_hash e) = CKB_SUCCESS"
    by (simp add: assms example_env_def status_defs)
  show "length (snd (ckb_load_tx_hash e)) = BLAKE2B_BLOCK_SIZE"
    by (simp add: assms example_env_def BLAKE2B_BLOCK_SIZE_def)
  show "1 \<le> (1::nat)" by simp
  show "\<forall>j. 1 \<le> j \<and> j < 1 \<longrightarrow> witness_loaded e j CKB_SOURCE_GROUP_INPUT" by simp
  show "witness_end e 1 CKB_SOURCE_GROUP_INPUT"
    by (simp add: witness_end_def assms example_env_def status_defs)
  show "calculate_inputs_len e \<le> 2"
    by (simp add: assms example_env_def)
  show "\<forall>j. calculate_inputs_len e \<le> j \<and> j < 2 \<longrightarrow> witness_loaded e j CKB_SOURCE_INPUT"
  proof (intro allI impI)
    fix j assume "calculate_inputs_len e \<le> j \<and> j < 2"
    then have "j = 1" by (simp add: assms example_env_def)
    then show "witness_loaded e j CKB_SOURCE_INPUT"
      by (simp add: witness_loaded_def assms example_env_def status_defs MAX_WITNESS_SIZE_def)
  qed
  show "witness_end e 2 CKB_SOURCE_INPUT"
    by (simp add: witness_end_def assms example_env_def status_defs)
qed

lemma example_recovered:
  assumes "blake2b e = blake2b example_env"
    and "secp256k1_ecdsa_recoverable_signature_parse_compact e =
         secp256k1_ecdsa_recoverable_signature_parse_compact example_env"
    and "secp256k1_ecdsa_recover e = secp256k1_ecdsa_recover example_env"
    and "secp256k1_ec_pubkey_serialize e = secp256k1_ec_pubkey_serialize example_env"
  shows "recovered_short_hash e example_lock message = Some (replicate 20 3)"
  by (simp add: recovered_short_hash_def assms example_env_def example_lock_def RECID_INDEX_def
      nth_append)

lemma example_short_hash:
  assumes "ckb_load_witness e = ckb_load_witness example_env"
    and "ckb_load_tx_hash e = ckb_load_tx_hash example_env"
    and "calculate_inputs_len e = calculate_inputs_len example_env"
    and "extract_witness_lock e = extract_witness_lock example_env"
    and "blake2b e = blake2b example_env"
    and "secp256k1_ecdsa_recoverable_signature_parse_compact e =
         secp256k1_ecdsa_recoverable_signature_parse_compact example_env"
    and "secp256k1_ecdsa_recover e = secp256k1_ecdsa_recover example_env"
    and "secp256k1_ec_pubkey_serialize e = secp256k1_ec_pubkey_serialize example_env"
  shows "extract_witness_lock e (witness0 e) = Some (4, 65) \<and>
         transfer_short_hash e = Some (replicate 20 3)"
proof -
  have w0: "witness0 e = replicate 4 8 @ example_lock @ [9, 9]"
    by (simp add: witness0_def assms(1) example_env_def)
  have len: "length example_lock = 65" by (simp add: example_lock_def)
  have lock: "extract_witness_lock e (witness0 e) = Some (4, 65)"
    by (simp add: w0 len assms(4) example_env_def)
  have bytes: "take 65 (drop 4 (witness0 e)) = example_lock"
    by (simp add: w0 len)
  from assms(1) have "\<forall>j src. 0 < j \<longrightarrow>
      ckb_load_witness e j src = ckb_load_witness example_env j src" by simp
  from example_message[OF this assms(2,3)] obtain message where
    "signing_message e (witness0 e) 4 65 = Some (Inr message)" by blast
  with lock bytes example_recovered[OF assms(5-8)] show ?thesis
    by (simp add: transfer_short_hash_def)
qed

lemma example_loads:
  assumes "ckb_load_cell_capacity e = ckb_load_cell_capacity example_env"
    and "ckb_load_script e = (0, replicate 33 0 @ args)"
    and "length args mod 20 = 0" and "length args \<le> 60"
    and "MolReader_Script_verify e = MolReader_Script_verify example_env"
    and "MolReader_Script_args_raw_bytes e = MolReader_Script_args_raw_bytes example_env"
    and "ckb_load_witness e 0 CKB_SOURCE_GROUP_INPUT = (0, w)" and "length w \<le> 100"
    and "ckb_secp256k1_custom_verify_only_initialize e = 0"
  shows "transfer_loads_succeed e \<and> input_capacity e \<le> output_capacity e \<and> script_args e = args"
  using assms(3,4,8,9)
  by (simp add: transfer_loads_succeed_def host_defs assms(1,2,5,6,7) example_env_def status_defs
      size_defs)

lemma example_validators:
  "validator_set (replicate 20 1 @ replicate 20 3) = [replicate 20 1, replicate 20 3]"
  "validator_set (replicate 20 3 @ replicate 7 0) = [replicate 20 3]"
  by (simp_all add: validator_set_def upt_rec)

lemma example_env_accepted:
  "transfer_loads_succeed example_env \<and> spec_transfer_conditions example_env"
proof -
  have loads: "transfer_loads_succeed example_env \<and>
      input_capacity example_env \<le> output_capacity example_env \<and>
      script_args example_env = replicate 20 1 @ replicate 20 3"
    by (rule example_loads[where w = "replicate 4 8 @ example_lock @ [9, 9]"])
       (simp_all add: example_env_def example_lock_def)
  have "extract_witness_lock example_env (witness0 example_env) = Some (4, 65) \<and>
      transfer_short_hash example_env = Some (replicate 20 3)"
    by (rule example_short_hash) simp_all
  with loads show ?thesis
    by (simp add: spec_transfer_conditions_def example_validators)
qed

lemma tx_args_27_facts:
  "get_cell_num tx_args_27 src = Some 1"
  "fst (ckb_load_script tx_args_27) = CKB_SUCCESS"
  "length (snd (ckb_load_script tx_args_27)) \<le> SCRIPT_SIZE"
  "MolReader_Script_verify tx_args_27 (snd (ckb_load_script tx_args_27))"
  "fst (ckb_load_cell_capacity tx_args_27 0 CKB_SOURCE_GROUP_INPUT) = CKB_SUCCESS"
  "fst (ckb_load_cell_capacity tx_args_27 0 CKB_SOURCE_GROUP_OUTPUT) = CKB_SUCCESS"
  "input_capacity tx_args_27 \<le> output_capacity tx_args_27"
  "script_args tx_args_27 = replicate 20 3 @ replicate 7 0"
  by (simp_all add: example_counts tx_args_27_def example_env_def status_defs SCRIPT_SIZE_def
      host_defs)

lemma main_tx_args_27: "main tx_args_27 = Some (Inl ERROR_ARGUMENTS_LEN)"
proof -
  have "verify_transfer tx_args_27 = Some (Inl ERROR_ARGUMENTS_LEN)"
    by (rule verify_transfer_args_length) (simp_all add: tx_args_27_facts)
  moreover have "main tx_args_27 = verify_transfer tx_args_27"
    by (rule main_transfer) (simp_all add: tx_args_27_facts)
  ultimately show ?thesis by simp
qed

lemma tx_args_27_conditions: "spec_transfer_conditions tx_args_27"
proof -
  have "extract_witness_lock tx_args_27 (witness0 tx_args_27) = Some (4, 65) \<and>
      transfer_short_hash tx_args_27 = Some (replicate 20 3)"
    by (rule example_short_hash) (simp_all add: tx_args_27_def)
  then show ?thesis
    by (simp add: spec_transfer_conditions_def tx_args_27_facts example_validators)
qed

lemma tx_short_lock_facts:
  "get_cell_num tx_short_lock src = Some 1"
  "transfer_loads_succeed tx_short_lock"
  "input_capacity tx_short_lock \<le> output_capacity tx_short_lock"
  "script_args tx_short_lock = replicate 20 1 @ replicate 20 3"
  "extract_witness_lock tx_short_lock (witness0 tx_short_lock) = Some (4, 64)"
proof -
  show "get_cell_num tx_short_lock src = Some 1"
    by (rule example_counts) (simp add: tx_short_lock_def)
  have "transfer_loads_succeed tx_short_lock \<and>
      input_capacity tx_short_lock \<le> output_capacity tx_short_lock \<and>
      script_args tx_short_lock = replicate 20 1 @ replicate 20 3"
    by (rule example_loads[where w = "replicate 4 8 @ replicate 64 3 @ [9, 9]"])
       (simp_all add: tx_short_lock_def example_env_def)
  then show "transfer_loads_succeed tx_short_lock"
    "input_capacity tx_short_lock \<le> output_capacity tx_short_lock"
    "script_args tx_short_lock = replicate 20 1 @ replicate 20 3" by simp_all
  show "extract_witness_lock tx_short_lock (witness0 tx_short_lock) = Some (4, 64)"
    by (simp add: tx_short_lock_def example_env_def witness0_def)
qed

lemma main_tx_short_lock: "main tx_short_lock = Some (Inl ERROR_ARGUMENTS_LEN)"
proof -
  have "verify_transfer tx_short_lock = Some (Inl ERROR_ARGUMENTS_LEN)"
    by (rule verify_transfer_lock_size[where n = 64 and off = 4])
       (simp_all add: tx_short_lock_facts)
  moreover have "main tx_short_lock = verify_transfer tx_short_lock"
    using tx_short_lock_facts(2)
    by (intro main_transfer) (simp_all add: tx_short_lock_facts(1) transfer_loads_succeed_def)
  ultimately show ?thesis by simp
qed

lemma main_tx_capacity_query_fails: "main tx_capacity_query_fails = Some (Inl (RET 2))"
proof -
  have "verify_transfer tx_capacity_query_fails = Some (Inl (RET 2))"
    by (simp add: verify_transfer_def Let_def tx_capacity_query_fails_def status_defs)
  moreover have "main tx_capacity_query_fails = verify_transfer tx_capacity_query_fails"
    by (rule main_transfer)
       (simp_all add: example_counts tx_capacity_query_fails_def example_env_def status_defs
          SCRIPT_SIZE_def)
  ultimately show ?thesis by simp
qed

lemma tx_no_validators_facts:
  "transfer_loads_succeed tx_no_validators"
  "input_capacity tx_no_validators \<le> output_capacity tx_no_validators"
  "script_args tx_no_validators = []"
  "extract_witness_lock tx_no_validators (witness0 tx_no_validators) = Some (4, 65)"
  "transfer_short_hash tx_no_validators = Some (replicate 20 3)"
proof -
  have "transfer_loads_succeed tx_no_validators \<and>
      input_capacity tx_no_validators \<le> output_capacity tx_no_validators \<and>
      script_args tx_no_validators = []"
    by (rule example_loads[where w = "replicate 4 8 @ example_lock @ [9, 9]"])
       (simp_all add: tx_no_validators_def example_env_def example_lock_def)
  then show "transfer_loads_succeed tx_no_validators"
    "input_capacity tx_no_validators \<le> output_capacity tx_no_validators"
    "script_args tx_no_validators = []" by simp_all
  have "extract_witness_lock tx_no_validators (witness0 tx_no_validators) = Some (4, 65) \<and>
      transfer_short_hash tx_no_validators = Some (replicate 20 3)"
    by (rule example_short_hash) (simp_all add: tx_no_validators_def)
  then show "extract_witness_lock tx_no_validators (witness0 tx_no_validators) = Some (4, 65)"
    "transfer_short_hash tx_no_validators = Some (replicate 20 3)" by simp_all
qed

lemma tx_no_validators_shrinking_facts:
  "fst (ckb_load_cell_capacity tx_no_validators_shrinking 0 CKB_SOURCE_GROUP_INPUT) = CKB_SUCCESS"
  "fst (ckb_load_cell_capacity tx_no_validators_shrinking 0 CKB_SOURCE_GROUP_OUTPUT) = CKB_SUCCESS"
  "input_capacity tx_no_validators_shrinking = 1000"
  "output_capacity tx_no_validators_shrinking = 999"
  "script_args tx_no_validators_shrinking = []"
  by (simp_all add: tx_no_validators_shrinking_def tx_no_validators_def example_env_def
      status_defs host_defs)

lemma tx_no_validators_bad_recid_rejected:
  "script_args tx_no_validators_bad_recid = [] \<and>
   verify_transfer tx_no_validators_bad_recid = Some (Inl ERROR_SECP_PARSE_SIGNATURE)"
proof -
  let ?e = tx_no_validators_bad_recid
  let ?w = "replicate 4 8 @ replicate 64 3 @ [7] @ [9, 9]"
  have loads: "transfer_loads_succeed ?e \<and> input_capacity ?e \<le> output_capacity ?e \<and>
      script_args ?e = []"
    by (rule example_loads[where w = ?w])
       (simp_all add: tx_no_validators_bad_recid_def tx_no_validators_def example_env_def)
  have w0: "witness0 ?e = ?w"
    by (simp add: witness0_def tx_no_validators_bad_recid_def)
  have lock: "extract_witness_lock ?e (witness0 ?e) = Some (4, 65)"
    by (simp add: w0, simp add: tx_no_validators_bad_recid_def tx_no_validators_def example_env_def)
  have "signing_message ?e (witness0 ?e) 4 65 =
     Some (Inr (blake2b ?e
       (snd (ckb_load_tx_hash ?e) @ le64 (length (witness0 ?e)) @ memset0 (witness0 ?e) 4 65
        @ encoded_witnesses ?e CKB_SOURCE_GROUP_INPUT 1 1
        @ encoded_witnesses ?e CKB_SOURCE_INPUT (calculate_inputs_len ?e) 1)))"
    by (rule signing_message_run)
       (simp_all add: tx_no_validators_bad_recid_def tx_no_validators_def example_env_def
          status_defs BLAKE2B_BLOCK_SIZE_def witness_end_def)
  then obtain message where msg: "signing_message ?e (witness0 ?e) 4 65 = Some (Inr message)"
    by blast
  have bytes: "take 65 (drop 4 (witness0 ?e)) = replicate 64 3 @ [7]"
    by (simp add: w0)
  have "verify_signature ?e (script_args ?e) (replicate 64 3 @ [7]) message =
      Inl ERROR_SECP_PARSE_SIGNATURE"
    by (simp add: verify_signature_def tx_no_validators_bad_recid_def tx_no_validators_def
        example_env_def RECID_INDEX_def nth_append)
  with verify_transfer_signature[of ?e 4 message] loads lock msg bytes show ?thesis by simp
qed

lemma tx_other_signature_short_hash:
  "transfer_loads_succeed tx_other_signature \<and>
   input_capacity tx_other_signature \<le> output_capacity tx_other_signature \<and>
   script_args tx_other_signature = replicate 20 1 @ replicate 20 3 \<and>
   transfer_short_hash tx_other_signature = Some (replicate 20 4)"
proof -
  let ?e = tx_other_signature
  let ?w = "replicate 4 8 @ replicate 64 4 @ [0] @ [9, 9]"
  have loads: "transfer_loads_succeed ?e \<and> input_capacity ?e \<le> output_capacity ?e \<and>
      script_args ?e = replicate 20 1 @ replicate 20 3"
    by (rule example_loads[where w = ?w]) (simp_all add: tx_other_signature_def example_env_def)
  have w0: "witness0 ?e = ?w"
    by (simp add: witness0_def tx_other_signature_def)
  have lock: "extract_witness_lock ?e (witness0 ?e) = Some (4, 65)"
    by (simp add: w0, simp add: tx_other_signature_def example_env_def)
  have bytes: "take 65 (drop 4 (witness0 ?e)) = replicate 64 4 @ [0]"
    by (simp add: w0)
  have "signing_message ?e (witness0 ?e) 4 65 =
     Some (Inr (blake2b ?e
       (snd (ckb_load_tx_hash ?e) @ le64 (length (witness0 ?e)) @ memset0 (witness0 ?e) 4 65
        @ encoded_witnesses ?e CKB_SOURCE_GROUP_INPUT 1 1
        @ encoded_witnesses ?e CKB_SOURCE_INPUT (calculate_inputs_len ?e) 2)))"
    by (rule example_message) (simp_all add: tx_other_signature_def example_env_def)
  then obtain message where msg: "signing_message ?e (witness0 ?e) 4 65 = Some (Inr message)"
    by blast
  have "recovered_short_hash ?e (replicate 64 4 @ [0]) message = Some (replicate 20 4)"
    by (simp add: recovered_short_hash_def tx_other_signature_def example_env_def RECID_INDEX_def
        nth_append)
  with loads lock bytes msg show ?thesis
    by (simp add: transfer_short_hash_def)
qed

text \<open>
  The end-to-end example of the specification (testable property 8): the transfer is
  accepted; with output capacity 999 it fails with the capacity error; with a signature
  that recovers to an unlisted key it fails with the validator error.
\<close>

lemma spec_end_to_end_example:
  "main example_env = Some (Inr ()) \<and>
   main tx_shrinking = Some (Inl ERROR_CAPACITY_INVALID) \<and>
   main tx_other_signature = Some (Inl ERROR_VALIDATOR_SIGNATURE_INVALID)"
proof -
  have script: "fst (ckb_load_script e) = CKB_SUCCESS \<and>
      length (snd (ckb_load_script e)) \<le> SCRIPT_SIZE"
    if "ckb_load_script e = ckb_load_script example_env" for e
    using that by (simp add: example_env_def status_defs SCRIPT_SIZE_def)
  have transfer: "main e = verify_transfer e"
    if "ckb_load_script e = ckb_load_script example_env"
      "ckb_load_cell_data e = ckb_load_cell_data example_env" for e
    using script[OF that(1)] example_counts[OF that(2)] by (intro main_transfer) simp_all
  have "verify_transfer example_env = Some (Inr ())"
    using example_env_accepted
    by (auto simp: verify_transfer_accept_iff spec_transfer_conditions_def split: option.splits)
  moreover have "verify_transfer tx_shrinking = Some (Inl ERROR_CAPACITY_INVALID)"
    by (rule verify_transfer_capacity)
       (simp_all add: tx_shrinking_def example_env_def status_defs host_defs)
  moreover have "verify_transfer tx_other_signature = Some (Inl ERROR_VALIDATOR_SIGNATURE_INVALID)"
    using tx_other_signature_short_hash
      verify_transfer_result[of tx_other_signature "replicate 20 4"]
    by (simp add: example_validators)
  moreover have "main example_env = verify_transfer example_env"
    by (rule transfer) simp_all
  moreover have "main tx_shrinking = verify_transfer tx_shrinking"
    by (rule transfer) (simp_all add: tx_shrinking_def)
  moreover have "main tx_other_signature = verify_transfer tx_other_signature"
    by (rule transfer) (simp_all add: tx_other_signature_def)
  ultimately show ?thesis by simp
qed

section \<open>The claims\<close>

subsection \<open>Acceptance of a transfer\<close>

text \<open>
  C1, amended. For a transaction with exactly one group input and one group output,
  \<^verbatim>\<open>main\<close> returns \<^verbatim>\<open>CKB_SUCCESS\<close> (0, accept) if and only if the three
  conditions of the claim hold (the input capacity is at most the output capacity, the
  lock of witness 0 has 65 bytes, the short hash of the key recovered from it over the
  signing digest is an aligned 20-byte chunk of the args) and, besides, both capacity
  fields load, the script loads, is at most 32768 bytes long and passes the decoder, the
  length of the args is a multiple of 20, witness 0 loads and is at most 32768 bytes long,
  and the secp256k1 context initialises. The second part: when the codes of common.h are
  not 0, the exit status is 0 exactly when \<^verbatim>\<open>main\<close> returns
  \<^verbatim>\<open>CKB_SUCCESS\<close>.
\<close>

theorem transfer_accept_iff:
  assumes "get_cell_num e CKB_SOURCE_GROUP_INPUT = Some 1"
    and "get_cell_num e CKB_SOURCE_GROUP_OUTPUT = Some 1"
  shows "(main e = Some (Inr ()) \<longleftrightarrow> transfer_loads_succeed e \<and> spec_transfer_conditions e) \<and>
         (witness_size_code c \<noteq> 0 \<and> secp_parse_signature_code c \<noteq> 0 \<and>
          secp_recover_pubkey_code c \<noteq> 0 \<and> secp_serialize_pubkey_code c \<noteq> 0 \<longrightarrow>
            (map_option (exit_status c) (main e) = Some 0 \<longleftrightarrow> main e = Some (Inr ())))"
proof -
  have first: "main e = Some (Inr ()) \<longleftrightarrow> transfer_loads_succeed e \<and> spec_transfer_conditions e"
  proof
    assume acc: "main e = Some (Inr ())"
    from main_Some_script[OF acc] assms have "main e = verify_transfer e"
      by (intro main_transfer) simp_all
    with acc have "verify_transfer e = Some (Inr ())" by simp
    from verify_transfer_accept[OF this] obtain h where
      "transfer_loads_succeed e" "input_capacity e \<le> output_capacity e"
      "transfer_short_hash e = Some h" "h \<in> set (validator_set (script_args e))"
      by blast
    with transfer_short_hash_lock[of e h]
    show "transfer_loads_succeed e \<and> spec_transfer_conditions e"
      by (auto simp: spec_transfer_conditions_def)
  next
    assume rhs: "transfer_loads_succeed e \<and> spec_transfer_conditions e"
    then obtain h where h: "transfer_short_hash e = Some h" "h \<in> set (validator_set (script_args e))"
      and cap: "input_capacity e \<le> output_capacity e"
      by (auto simp: spec_transfer_conditions_def split: option.splits)
    from rhs have "main e = verify_transfer e"
      using assms by (intro main_transfer) (simp_all add: transfer_loads_succeed_def)
    with verify_transfer_result[of e h] rhs cap h show "main e = Some (Inr ())" by simp
  qed
  have "map_option (exit_status c) (main e) = Some 0 \<longleftrightarrow> main e = Some (Inr ())"
    if "witness_size_code c \<noteq> 0" "secp_parse_signature_code c \<noteq> 0"
      "secp_recover_pubkey_code c \<noteq> 0" "secp_serialize_pubkey_code c \<noteq> 0"
  proof (cases "main e")
    case None
    then show ?thesis by simp
  next
    case (Some r)
    from main_status_zero[OF Some that] Some show ?thesis by simp
  qed
  with first show ?thesis by simp
qed

text \<open>
  The theorem of C1 at the example transfer: the conditions hold and it is accepted.
\<close>

theorem transfer_accept_iff_witness:
  "get_cell_num example_env CKB_SOURCE_GROUP_INPUT = Some 1 \<and>
   get_cell_num example_env CKB_SOURCE_GROUP_OUTPUT = Some 1 \<and>
   transfer_loads_succeed example_env \<and>
   spec_transfer_conditions example_env \<and>
   main example_env = Some (Inr ()) \<and>
   witness_size_code example_codes = -22 \<and> secp_parse_signature_code example_codes = -14 \<and>
   secp_recover_pubkey_code example_codes = -11 \<and> secp_serialize_pubkey_code example_codes = -15 \<and>
   map_option (exit_status example_codes) (main example_env) = Some 0"
proof -
  have counts: "get_cell_num example_env src = Some 1" for src
    by (rule example_counts) simp
  have codes: "witness_size_code example_codes = -22" "secp_parse_signature_code example_codes = -14"
    "secp_recover_pubkey_code example_codes = -11" "secp_serialize_pubkey_code example_codes = -15"
    by (simp_all add: example_codes_def)
  note inst = transfer_accept_iff[OF counts counts, of example_codes]
  have nonzero: "witness_size_code example_codes \<noteq> 0" "secp_parse_signature_code example_codes \<noteq> 0"
    "secp_recover_pubkey_code example_codes \<noteq> 0" "secp_serialize_pubkey_code example_codes \<noteq> 0"
    by (simp_all add: codes)
  from inst example_env_accepted have acc: "main example_env = Some (Inr ())" by blast
  from inst nonzero acc have status:
    "map_option (exit_status example_codes) (main example_env) = Some 0"
    by blast
  from counts[of CKB_SOURCE_GROUP_INPUT] counts[of CKB_SOURCE_GROUP_OUTPUT] example_env_accepted
    acc codes status
  show ?thesis by blast
qed

text \<open>
  C1 as stated fails: with args of 27 bytes whose first 20 bytes are the short hash of
  the recovered key the three conditions hold, and the transfer is rejected with
  \<open>ERROR_ARGUMENTS_LEN\<close>.
\<close>

theorem args_27_rejected:
  "get_cell_num tx_args_27 CKB_SOURCE_GROUP_INPUT = Some 1 \<and>
   get_cell_num tx_args_27 CKB_SOURCE_GROUP_OUTPUT = Some 1 \<and>
   spec_transfer_conditions tx_args_27 \<and>
   main tx_args_27 = Some (Inl ERROR_ARGUMENTS_LEN)"
  by (simp add: tx_args_27_facts(1) tx_args_27_conditions main_tx_args_27)

subsection \<open>The init path\<close>

text \<open>
  C2, amended. When the script loads and is at most 32768 bytes long, the group has no
  input cell and exactly one output cell, then the script accepts: \<^verbatim>\<open>main\<close> returns
  \<^verbatim>\<open>CKB_SUCCESS\<close>, the exit status 0, whatever the capacities, the witnesses and
  the args are.
\<close>

theorem init_accepts:
  assumes "fst (ckb_load_script e) = CKB_SUCCESS"
    and "length (snd (ckb_load_script e)) \<le> SCRIPT_SIZE"
    and "get_cell_num e CKB_SOURCE_GROUP_INPUT = Some 0"
    and "get_cell_num e CKB_SOURCE_GROUP_OUTPUT = Some 1"
  shows "main e = Some (Inr ()) \<and> exit_status c (Inr ()) = 0"
  using main_counts[OF assms] by (simp add: verify_init_def exit_status_def status_defs)

text \<open>
  The theorem of C2 at a transaction that creates one cell of the group.
\<close>

theorem init_accepts_witness:
  "fst (ckb_load_script tx_init_args_7) = CKB_SUCCESS \<and>
   length (snd (ckb_load_script tx_init_args_7)) \<le> SCRIPT_SIZE \<and>
   get_cell_num tx_init_args_7 CKB_SOURCE_GROUP_INPUT = Some 0 \<and>
   get_cell_num tx_init_args_7 CKB_SOURCE_GROUP_OUTPUT = Some 1 \<and>
   main tx_init_args_7 = Some (Inr ()) \<and> exit_status example_codes (Inr ()) = 0"
proof -
  have h1: "fst (ckb_load_script tx_init_args_7) = CKB_SUCCESS"
    by (simp add: tx_init_args_7_def example_env_def status_defs)
  have h2: "length (snd (ckb_load_script tx_init_args_7)) \<le> SCRIPT_SIZE"
    by (simp add: tx_init_args_7_def example_env_def SCRIPT_SIZE_def)
  have h3: "get_cell_num tx_init_args_7 CKB_SOURCE_GROUP_INPUT = Some 0"
    by (simp add: get_cell_num_eq tx_init_args_7_def status_defs)
  have h4: "get_cell_num tx_init_args_7 CKB_SOURCE_GROUP_OUTPUT = Some 1"
    by (simp add: get_cell_num_eq tx_init_args_7_def status_defs)
  from init_accepts[OF h1 h2 h3 h4, of example_codes] h1 h2 h3 h4 show ?thesis by simp
qed

text \<open>
  C2 as stated fails: a transaction with no group input and two group outputs is
  rejected with \<open>ERROR_GROUP_OUTPUT_INVALID\<close>.
\<close>

theorem init_two_outputs_rejected:
  "get_cell_num tx_two_outputs CKB_SOURCE_GROUP_INPUT = Some 0 \<and>
   main tx_two_outputs = Some (Inl ERROR_GROUP_OUTPUT_INVALID)"
proof -
  have h1: "fst (ckb_load_script tx_two_outputs) = CKB_SUCCESS"
    by (simp add: tx_two_outputs_def example_env_def status_defs)
  have h2: "length (snd (ckb_load_script tx_two_outputs)) \<le> SCRIPT_SIZE"
    by (simp add: tx_two_outputs_def example_env_def SCRIPT_SIZE_def)
  have h3: "get_cell_num tx_two_outputs CKB_SOURCE_GROUP_INPUT = Some 0"
    by (simp add: get_cell_num_eq tx_two_outputs_def status_defs)
  have h4: "get_cell_num tx_two_outputs CKB_SOURCE_GROUP_OUTPUT = Some 2"
    by (simp add: get_cell_num_eq tx_two_outputs_def status_defs less_Suc_eq numeral_2_eq_2)
  from main_counts[OF h1 h2 h3 h4] h3 show ?thesis by simp
qed

subsection \<open>The signing message\<close>

text \<open>
  C3. On the transfer path the signing digest is the blake2b hash of these bytes in this
  order: the 32 bytes of the transaction hash; the length of witness 0 in eight
  little-endian bytes and witness 0 with its 65 lock bytes replaced by zeros; for the
  group-input indices \<open>1, 2, ...\<close> up to the first index \<open>g\<close> that the host
  answers with index-out-of-range, the length of the witness in eight little-endian bytes
  and its bytes; then the same for the indices \<open>n, n + 1, ...\<close> of the whole
  transaction, \<open>n\<close> the number of inputs, up to the first index \<open>m\<close> answered
  with index-out-of-range. The hypotheses say that the transaction hash and these
  witnesses load, each witness at most 32768 bytes long, and that the lock lies in
  witness 0. The first part is about the message builder; the second says that
  \<^verbatim>\<open>verify_transfer\<close>, once its earlier checks have passed, verifies the signature
  against this digest. That \<open>le64\<close> is the little-endian encoding in eight bytes is
  lemma \<open>le64_little_endian\<close>.
\<close>

theorem signing_message_bytes:
  assumes "fst (ckb_load_tx_hash e) = CKB_SUCCESS"
    and "length (snd (ckb_load_tx_hash e)) = 32"
    and "off + 65 \<le> length w0"
    and "1 \<le> g"
    and "\<forall>j. 1 \<le> j \<and> j < g \<longrightarrow> witness_loaded e j CKB_SOURCE_GROUP_INPUT"
    and "witness_end e g CKB_SOURCE_GROUP_INPUT"
    and "calculate_inputs_len e \<le> m"
    and "\<forall>j. calculate_inputs_len e \<le> j \<and> j < m \<longrightarrow> witness_loaded e j CKB_SOURCE_INPUT"
    and "witness_end e m CKB_SOURCE_INPUT"
  shows "signing_message e w0 off SIGNATURE_SIZE =
           Some (Inr (blake2b e (spec_message_bytes e w0 off g m))) \<and>
         (transfer_loads_succeed e \<and> input_capacity e \<le> output_capacity e \<and>
          witness0 e = w0 \<and> extract_witness_lock e w0 = Some (off, SIGNATURE_SIZE) \<longrightarrow>
            verify_transfer e =
              Some (verify_signature e (script_args e) (take SIGNATURE_SIZE (drop off w0))
                      (blake2b e (spec_message_bytes e w0 off g m))))"
proof -
  from assms(2) have len: "length (snd (ckb_load_tx_hash e)) = BLAKE2B_BLOCK_SIZE"
    by (simp add: BLAKE2B_BLOCK_SIZE_def)
  from assms(3) have "memset0 w0 off 65 = take off w0 @ replicate 65 0 @ drop (off + 65) w0"
    by (rule memset0_inside)
  with signing_message_run[OF assms(1) len assms(4-9), of w0 off 65]
  have msg: "signing_message e w0 off 65 =
      Some (Inr (blake2b e (spec_message_bytes e w0 off g m)))"
    by (simp add: spec_message_bytes_def)
  have "verify_transfer e =
      Some (verify_signature e (script_args e) (take 65 (drop off w0))
              (blake2b e (spec_message_bytes e w0 off g m)))"
    if "transfer_loads_succeed e" "input_capacity e \<le> output_capacity e"
      "witness0 e = w0" "extract_witness_lock e w0 = Some (off, 65)"
    using verify_transfer_signature[of e off "blake2b e (spec_message_bytes e w0 off g m)"]
      that msg by simp
  with msg show ?thesis by (simp add: SIGNATURE_SIZE_def)
qed

text \<open>
  The theorem of C3 at the example transfer, which has one group input and one witness
  after its last input, with the bytes that are hashed.
\<close>

theorem signing_message_bytes_witness:
  "fst (ckb_load_tx_hash example_env) = CKB_SUCCESS \<and>
   length (snd (ckb_load_tx_hash example_env)) = 32 \<and>
   4 + 65 \<le> length (witness0 example_env) \<and>
   witness_end example_env 1 CKB_SOURCE_GROUP_INPUT \<and>
   calculate_inputs_len example_env = 1 \<and>
   witness_loaded example_env 1 CKB_SOURCE_INPUT \<and>
   witness_end example_env 2 CKB_SOURCE_INPUT \<and>
   signing_message example_env (witness0 example_env) 4 SIGNATURE_SIZE =
     Some (Inr (blake2b example_env (spec_message_bytes example_env (witness0 example_env) 4 1 2))) \<and>
   transfer_loads_succeed example_env \<and>
   input_capacity example_env \<le> output_capacity example_env \<and>
   extract_witness_lock example_env (witness0 example_env) = Some (4, SIGNATURE_SIZE) \<and>
   verify_transfer example_env =
     Some (verify_signature example_env (script_args example_env)
             (take SIGNATURE_SIZE (drop 4 (witness0 example_env)))
             (blake2b example_env (spec_message_bytes example_env (witness0 example_env) 4 1 2))) \<and>
   spec_message_bytes example_env (witness0 example_env) 4 1 2 =
     replicate 32 7 @ [71, 0, 0, 0, 0, 0, 0, 0] @ (replicate 4 8 @ replicate 65 0 @ [9, 9])
     @ ([2, 0, 0, 0, 0, 0, 0, 0] @ [5, 6])"
proof -
  have h1: "fst (ckb_load_tx_hash example_env) = CKB_SUCCESS"
    by (simp add: example_env_def status_defs)
  have h2: "length (snd (ckb_load_tx_hash example_env)) = 32"
    by (simp add: example_env_def)
  have w0: "witness0 example_env = replicate 4 8 @ example_lock @ [9, 9]"
    by (simp add: witness0_def example_env_def)
  have len: "length example_lock = 65" by (simp add: example_lock_def)
  have h3: "4 + 65 \<le> length (witness0 example_env)"
    by (simp add: w0 len)
  have h4: "(1::nat) \<le> 1" by simp
  have h5: "\<forall>j. 1 \<le> j \<and> j < 1 \<longrightarrow> witness_loaded example_env j CKB_SOURCE_GROUP_INPUT"
    by simp
  have h6: "witness_end example_env 1 CKB_SOURCE_GROUP_INPUT"
    by (simp add: witness_end_def example_env_def status_defs)
  have n: "calculate_inputs_len example_env = 1"
    by (simp add: example_env_def)
  have h7: "calculate_inputs_len example_env \<le> 2"
    by (simp add: n)
  have l1: "witness_loaded example_env 1 CKB_SOURCE_INPUT"
    by (simp add: witness_loaded_def example_env_def status_defs MAX_WITNESS_SIZE_def)
  have h8: "\<forall>j. calculate_inputs_len example_env \<le> j \<and> j < 2 \<longrightarrow>
      witness_loaded example_env j CKB_SOURCE_INPUT"
  proof (intro allI impI)
    fix j assume "calculate_inputs_len example_env \<le> j \<and> j < 2"
    then have "j = 1" by (simp add: n)
    with l1 show "witness_loaded example_env j CKB_SOURCE_INPUT" by simp
  qed
  have h9: "witness_end example_env 2 CKB_SOURCE_INPUT"
    by (simp add: witness_end_def example_env_def status_defs)
  have le71: "le64 71 = [71, 0, 0, 0, 0, 0, 0, 0]" and le2: "le64 2 = [2, 0, 0, 0, 0, 0, 0, 0]"
    by (simp_all add: le64_def upt_rec drop_bit_eq_div)
  from le2 have le2': "le64 (Suc (Suc 0)) = [2, 0, 0, 0, 0, 0, 0, 0]"
    by (simp add: numeral_2_eq_2)
  have tx: "snd (ckb_load_tx_hash example_env) = replicate 32 7"
    and w1: "snd (ckb_load_witness example_env (Suc 0) CKB_SOURCE_INPUT) = [5, 6]"
    by (simp_all add: example_env_def)
  have bytes: "spec_message_bytes example_env (witness0 example_env) 4 1 2 =
     replicate 32 7 @ [71, 0, 0, 0, 0, 0, 0, 0] @ (replicate 4 8 @ replicate 65 0 @ [9, 9])
     @ ([2, 0, 0, 0, 0, 0, 0, 0] @ [5, 6])"
    by (simp add: spec_message_bytes_def encoded_witnesses_def witness_encoding_def w0 len n tx w1
        le71 le2' upt_rec)
  have loads: "transfer_loads_succeed example_env"
    "input_capacity example_env \<le> output_capacity example_env"
    using example_env_accepted by (simp_all add: spec_transfer_conditions_def)
  have lock: "extract_witness_lock example_env (witness0 example_env) = Some (4, SIGNATURE_SIZE)"
    using example_short_hash[of example_env] by (simp add: SIGNATURE_SIZE_def)
  from signing_message_bytes[OF h1 h2 h3 h4 h5 h6 h7 h8 h9] h1 h2 h3 h6 n l1 h9 bytes loads lock
  show ?thesis by simp
qed

text \<open>
  C4. The signing digest does not depend on the 65 lock bytes of witness 0: two
  transactions that agree on the transaction hash, on the number of inputs, on the
  witnesses that the two loops read and on witness 0 outside its lock give the same
  result of the message builder.
\<close>

theorem signing_message_ignores_lock:
  assumes "ckb_load_tx_hash e' = ckb_load_tx_hash e"
    and "calculate_inputs_len e' = calculate_inputs_len e"
    and "blake2b e' = blake2b e"
    and "\<forall>j. 1 \<le> j \<longrightarrow>
           ckb_load_witness e' j CKB_SOURCE_GROUP_INPUT = ckb_load_witness e j CKB_SOURCE_GROUP_INPUT"
    and "\<forall>j. calculate_inputs_len e \<le> j \<longrightarrow>
           ckb_load_witness e' j CKB_SOURCE_INPUT = ckb_load_witness e j CKB_SOURCE_INPUT"
    and "length lock = SIGNATURE_SIZE"
    and "length lock' = SIGNATURE_SIZE"
  shows "signing_message e' (pre @ lock' @ post) (length pre) SIGNATURE_SIZE =
         signing_message e (pre @ lock @ post) (length pre) SIGNATURE_SIZE"
proof -
  have group: "hash_witnesses e' CKB_SOURCE_GROUP_INPUT (Suc 0) ctx =
      hash_witnesses e CKB_SOURCE_GROUP_INPUT (Suc 0) ctx" for ctx
    using assms(4) by (intro hash_witnesses_agree) simp
  have extra: "hash_witnesses e' CKB_SOURCE_INPUT (calculate_inputs_len e) ctx =
      hash_witnesses e CKB_SOURCE_INPUT (calculate_inputs_len e) ctx" for ctx
    using assms(5) by (rule hash_witnesses_agree)
  have masked: "memset0 (pre @ lock' @ post) (length pre) SIGNATURE_SIZE =
      memset0 (pre @ lock @ post) (length pre) SIGNATURE_SIZE"
    using assms(6,7) by (simp add: memset0_lock)
  show ?thesis
    using assms(1,2,3,6,7)
    by (simp add: signing_message_def Let_def masked group extra blake2b_final_def
        cong: option.case_cong sum.case_cong)
qed

text \<open>
  The theorem of C4 at the example transfer and the same transfer with another
  signature.
\<close>

theorem signing_message_ignores_lock_witness:
  "witness0 example_env = replicate 4 8 @ (replicate 64 3 @ [1]) @ [9, 9] \<and>
   witness0 tx_other_signature = replicate 4 8 @ (replicate 64 4 @ [0]) @ [9, 9] \<and>
   signing_message tx_other_signature (witness0 tx_other_signature) 4 SIGNATURE_SIZE =
   signing_message example_env (witness0 example_env) 4 SIGNATURE_SIZE"
proof -
  have w: "witness0 example_env = replicate 4 8 @ (replicate 64 3 @ [1]) @ [9, 9]"
    by (simp add: witness0_def example_env_def example_lock_def)
  have w': "witness0 tx_other_signature = replicate 4 8 @ (replicate 64 4 @ [0]) @ [9, 9]"
    by (simp add: witness0_def tx_other_signature_def)
  have eq: "signing_message tx_other_signature
        (replicate 4 8 @ (replicate 64 4 @ [0]) @ [9, 9]) (length (replicate 4 (8::byte))) SIGNATURE_SIZE =
      signing_message example_env
        (replicate 4 8 @ (replicate 64 3 @ [1]) @ [9, 9]) (length (replicate 4 (8::byte))) SIGNATURE_SIZE"
    by (rule signing_message_ignores_lock)
       (simp_all add: tx_other_signature_def example_env_def SIGNATURE_SIZE_def)
  then show ?thesis unfolding w w' by simp
qed

subsection \<open>The length of the args\<close>

text \<open>
  C5, amended. On the transfer path (one group input, one group output), when the script
  loads, is at most 32768 bytes long and passes the decoder, both capacity fields load
  and the input capacity is at most the output capacity, args whose length is not a
  multiple of 20 are rejected with \<open>ERROR_ARGUMENTS_LEN\<close> (-1), whatever the witnesses,
  the signature and the transaction hash are.
\<close>

theorem transfer_args_length:
  assumes "get_cell_num e CKB_SOURCE_GROUP_INPUT = Some 1"
    and "get_cell_num e CKB_SOURCE_GROUP_OUTPUT = Some 1"
    and "fst (ckb_load_script e) = CKB_SUCCESS"
    and "length (snd (ckb_load_script e)) \<le> SCRIPT_SIZE"
    and "MolReader_Script_verify e (snd (ckb_load_script e))"
    and "fst (ckb_load_cell_capacity e 0 CKB_SOURCE_GROUP_INPUT) = CKB_SUCCESS"
    and "fst (ckb_load_cell_capacity e 0 CKB_SOURCE_GROUP_OUTPUT) = CKB_SUCCESS"
    and "input_capacity e \<le> output_capacity e"
    and "length (script_args e) mod 20 \<noteq> 0"
  shows "main e = Some (Inl ERROR_ARGUMENTS_LEN) \<and> exit_code c ERROR_ARGUMENTS_LEN = -1"
proof -
  have "verify_transfer e = Some (Inl ERROR_ARGUMENTS_LEN)"
    using assms(6,7,8,3,4,5,9) by (rule verify_transfer_args_length)
  with main_transfer[OF assms(3,4,1,2)] show ?thesis by simp
qed

text \<open>
  The theorem of C5 at the transfer with args of 27 bytes.
\<close>

theorem transfer_args_length_witness:
  "get_cell_num tx_args_27 CKB_SOURCE_GROUP_INPUT = Some 1 \<and>
   get_cell_num tx_args_27 CKB_SOURCE_GROUP_OUTPUT = Some 1 \<and>
   length (script_args tx_args_27) = 27 \<and>
   main tx_args_27 = Some (Inl ERROR_ARGUMENTS_LEN) \<and>
   exit_code example_codes ERROR_ARGUMENTS_LEN = -1"
proof -
  have "length (script_args tx_args_27) mod 20 \<noteq> 0"
    by (simp add: tx_args_27_facts)
  from transfer_args_length[OF tx_args_27_facts(1) tx_args_27_facts(1) tx_args_27_facts(2-7) this,
      of example_codes]
  show ?thesis by (simp add: tx_args_27_facts)
qed

text \<open>
  C5 as stated fails: a transaction that creates one cell of the group and spends none
  is accepted with args of 7 bytes; the length of the args is tested in
  \<^verbatim>\<open>verify_transfer\<close> only.
\<close>

theorem init_ignores_args_length:
  "get_cell_num tx_init_args_7 CKB_SOURCE_GROUP_INPUT = Some 0 \<and>
   length (script_args tx_init_args_7) = 7 \<and>
   main tx_init_args_7 = Some (Inr ())"
proof -
  have h3: "get_cell_num tx_init_args_7 CKB_SOURCE_GROUP_INPUT = Some 0"
    by (simp add: get_cell_num_eq tx_init_args_7_def status_defs)
  have h4: "get_cell_num tx_init_args_7 CKB_SOURCE_GROUP_OUTPUT = Some 1"
    by (simp add: get_cell_num_eq tx_init_args_7_def status_defs)
  have "main tx_init_args_7 = Some (Inr ())"
    by (rule main_init)
       (simp_all add: h3 h4, simp_all add: tx_init_args_7_def status_defs SCRIPT_SIZE_def)
  moreover have "length (script_args tx_init_args_7) = 7"
    by (simp add: script_args_def tx_init_args_7_def example_env_def)
  ultimately show ?thesis using h3 by simp
qed

subsection \<open>Cell counts\<close>

text \<open>
  C6, amended. When the script loads and is at most 32768 bytes long, the group inputs
  are \<open>gi\<close> cells and the group outputs \<open>go\<close> cells, and of two consecutive cells of a
  group one holds at most one byte of data: a group-output count other than 1 is rejected
  with \<open>ERROR_GROUP_OUTPUT_INVALID\<close> (-100) whatever the group-input count is, and a
  group-input count above 1 is rejected with \<open>ERROR_GROUP_INPUT_INVALID\<close> (-101) exactly
  when the group-output count is 1. The condition on the data is the one under which no
  query of \<^verbatim>\<open>get_cell_num\<close> stores beyond its buffer of one byte; the statement is
  silent on the other transactions.
\<close>

theorem group_count_errors:
  assumes "fst (ckb_load_script e) = CKB_SUCCESS"
    and "length (snd (ckb_load_script e)) \<le> SCRIPT_SIZE"
    and "group_count e CKB_SOURCE_GROUP_INPUT gi"
    and "one_byte_stores e CKB_SOURCE_GROUP_INPUT gi"
    and "group_count e CKB_SOURCE_GROUP_OUTPUT go"
    and "one_byte_stores e CKB_SOURCE_GROUP_OUTPUT go"
  shows "(go \<noteq> 1 \<longrightarrow> main e = Some (Inl ERROR_GROUP_OUTPUT_INVALID)) \<and>
         (1 < gi \<longrightarrow> (main e = Some (Inl ERROR_GROUP_INPUT_INVALID) \<longleftrightarrow> go = 1)) \<and>
         exit_code c ERROR_GROUP_OUTPUT_INVALID = -100 \<and>
         exit_code c ERROR_GROUP_INPUT_INVALID = -101"
proof -
  have "get_cell_num e CKB_SOURCE_GROUP_INPUT = Some gi"
    using assms(3,4) by (rule get_cell_num_group_count)
  moreover have "get_cell_num e CKB_SOURCE_GROUP_OUTPUT = Some go"
    using assms(5,6) by (rule get_cell_num_group_count)
  ultimately show ?thesis
    using main_counts[OF assms(1,2)] by auto
qed

text \<open>
  The theorem of C6 at a transaction with two group inputs and two group outputs, and at
  one with two group inputs and one group output; every cell holds one byte of data.
\<close>

theorem group_count_errors_witness:
  "group_count tx_two_inputs_two_outputs CKB_SOURCE_GROUP_INPUT 2 \<and>
   group_count tx_two_inputs_two_outputs CKB_SOURCE_GROUP_OUTPUT 2 \<and>
   main tx_two_inputs_two_outputs = Some (Inl ERROR_GROUP_OUTPUT_INVALID) \<and>
   group_count tx_two_inputs CKB_SOURCE_GROUP_INPUT 2 \<and>
   group_count tx_two_inputs CKB_SOURCE_GROUP_OUTPUT 1 \<and>
   main tx_two_inputs = Some (Inl ERROR_GROUP_INPUT_INVALID)"
proof -
  have a1: "fst (ckb_load_script tx_two_inputs_two_outputs) = CKB_SUCCESS"
    by (simp add: tx_two_inputs_two_outputs_def example_env_def status_defs)
  have a2: "length (snd (ckb_load_script tx_two_inputs_two_outputs)) \<le> SCRIPT_SIZE"
    by (simp add: tx_two_inputs_two_outputs_def example_env_def SCRIPT_SIZE_def)
  have a3: "group_count tx_two_inputs_two_outputs CKB_SOURCE_GROUP_INPUT 2"
    by (simp add: group_count_def tx_two_inputs_two_outputs_def status_defs)
  have a4: "one_byte_stores tx_two_inputs_two_outputs CKB_SOURCE_GROUP_INPUT 2"
    by (simp add: one_byte_stores_def tx_two_inputs_two_outputs_def)
  have a5: "group_count tx_two_inputs_two_outputs CKB_SOURCE_GROUP_OUTPUT 2"
    by (simp add: group_count_def tx_two_inputs_two_outputs_def status_defs)
  have a6: "one_byte_stores tx_two_inputs_two_outputs CKB_SOURCE_GROUP_OUTPUT 2"
    by (simp add: one_byte_stores_def tx_two_inputs_two_outputs_def)
  have b1: "fst (ckb_load_script tx_two_inputs) = CKB_SUCCESS"
    by (simp add: tx_two_inputs_def example_env_def status_defs)
  have b2: "length (snd (ckb_load_script tx_two_inputs)) \<le> SCRIPT_SIZE"
    by (simp add: tx_two_inputs_def example_env_def SCRIPT_SIZE_def)
  have b3: "group_count tx_two_inputs CKB_SOURCE_GROUP_INPUT 2"
    by (simp add: group_count_def tx_two_inputs_def status_defs)
  have b4: "one_byte_stores tx_two_inputs CKB_SOURCE_GROUP_INPUT 2"
    by (simp add: one_byte_stores_def tx_two_inputs_def)
  have b5: "group_count tx_two_inputs CKB_SOURCE_GROUP_OUTPUT 1"
    by (simp add: group_count_def tx_two_inputs_def status_defs)
  have b6: "one_byte_stores tx_two_inputs CKB_SOURCE_GROUP_OUTPUT 1"
    by (simp add: one_byte_stores_def tx_two_inputs_def)
  from group_count_errors[OF a1 a2 a3 a4 a5 a6, of example_codes]
       group_count_errors[OF b1 b2 b3 b4 b5 b6, of example_codes] a3 a5 b3 b5
  show ?thesis by simp
qed

text \<open>
  C6 as stated fails: with a script of 32769 bytes and two group outputs the result is
  \<open>ERROR_SCRIPT_TOO_LONG\<close>; the length of the script is tested before the cells are
  counted.
\<close>

theorem long_script_precedes_group_count:
  "get_cell_num tx_script_too_long CKB_SOURCE_GROUP_OUTPUT = Some 2 \<and>
   main tx_script_too_long = Some (Inl ERROR_SCRIPT_TOO_LONG)"
proof -
  have "get_cell_num tx_script_too_long CKB_SOURCE_GROUP_OUTPUT = Some 2"
    by (simp add: get_cell_num_eq tx_script_too_long_def tx_two_outputs_def status_defs
        less_Suc_eq numeral_2_eq_2)
  moreover have "main tx_script_too_long = Some (Inl ERROR_SCRIPT_TOO_LONG)"
    by (simp add: main_def tx_script_too_long_def tx_two_outputs_def example_env_def
        status_defs SCRIPT_SIZE_def)
  ultimately show ?thesis by simp
qed

subsection \<open>The capacity check\<close>

text \<open>
  C7. On the transfer path, when both capacity fields load, \<^verbatim>\<open>verify_transfer\<close>
  fails with \<open>ERROR_CAPACITY_INVALID\<close>, whose exit status is -102, if and only if the
  capacity of group input 0 is greater than the capacity of group output 0 as unsigned
  64-bit numbers; equal capacities pass the check. The last part is the same for the
  exit status as a number: the source also returns the results of the transaction-hash
  load and of the secp256k1 helper as they are, so the number -102 stands for this
  failure alone when those results and the codes of common.h are not -102.
\<close>

theorem capacity_check:
  assumes "fst (ckb_load_cell_capacity e 0 CKB_SOURCE_GROUP_INPUT) = CKB_SUCCESS"
    and "fst (ckb_load_cell_capacity e 0 CKB_SOURCE_GROUP_OUTPUT) = CKB_SUCCESS"
  shows "(verify_transfer e = Some (Inl ERROR_CAPACITY_INVALID) \<longleftrightarrow>
            unat (output_capacity e) < unat (input_capacity e)) \<and>
         exit_code c ERROR_CAPACITY_INVALID = -102 \<and>
         (fst (ckb_load_tx_hash e) \<noteq> -102 \<and>
          ckb_secp256k1_custom_verify_only_initialize e \<noteq> -102 \<and>
          witness_size_code c \<noteq> -102 \<and> secp_parse_signature_code c \<noteq> -102 \<and>
          secp_recover_pubkey_code c \<noteq> -102 \<and> secp_serialize_pubkey_code c \<noteq> -102 \<longrightarrow>
            (map_option (exit_status c) (verify_transfer e) = Some (-102) \<longleftrightarrow>
               unat (output_capacity e) < unat (input_capacity e)))"
proof -
  have first: "verify_transfer e = Some (Inl ERROR_CAPACITY_INVALID) \<longleftrightarrow>
      unat (output_capacity e) < unat (input_capacity e)"
  proof (cases "output_capacity e < input_capacity e")
    case True
    with verify_transfer_capacity[OF assms] show ?thesis
      by (simp add: word_less_nat_alt)
  next
    case False
    then have "input_capacity e \<le> output_capacity e" by simp
    from verify_transfer_after_capacity[OF this] False show ?thesis
      by (simp add: word_less_nat_alt)
  qed
  have "map_option (exit_status c) (verify_transfer e) = Some (-102) \<longleftrightarrow>
      verify_transfer e = Some (Inl ERROR_CAPACITY_INVALID)"
    if "fst (ckb_load_tx_hash e) \<noteq> -102"
      "ckb_secp256k1_custom_verify_only_initialize e \<noteq> -102"
      "witness_size_code c \<noteq> -102" "secp_parse_signature_code c \<noteq> -102"
      "secp_recover_pubkey_code c \<noteq> -102" "secp_serialize_pubkey_code c \<noteq> -102"
  proof (cases "verify_transfer e")
    case None
    then show ?thesis by simp
  next
    case (Some r)
    from verify_transfer_status_capacity[OF assms that Some] Some show ?thesis by simp
  qed
  with first show ?thesis by simp
qed

text \<open>
  The theorem of C7 at a transfer from capacity 1000 to capacity 999 and at one that
  keeps the capacity 1000.
\<close>

theorem capacity_check_witness:
  "fst (ckb_load_cell_capacity tx_no_validators_shrinking 0 CKB_SOURCE_GROUP_INPUT) = CKB_SUCCESS \<and>
   fst (ckb_load_cell_capacity tx_no_validators_shrinking 0 CKB_SOURCE_GROUP_OUTPUT) = CKB_SUCCESS \<and>
   unat (input_capacity tx_no_validators_shrinking) = 1000 \<and>
   unat (output_capacity tx_no_validators_shrinking) = 999 \<and>
   verify_transfer tx_no_validators_shrinking = Some (Inl ERROR_CAPACITY_INVALID) \<and>
   map_option (exit_status example_codes) (verify_transfer tx_no_validators_shrinking) = Some (-102) \<and>
   fst (ckb_load_cell_capacity example_env 0 CKB_SOURCE_GROUP_INPUT) = CKB_SUCCESS \<and>
   fst (ckb_load_cell_capacity example_env 0 CKB_SOURCE_GROUP_OUTPUT) = CKB_SUCCESS \<and>
   unat (input_capacity example_env) = 1000 \<and>
   unat (output_capacity example_env) = 1000 \<and>
   verify_transfer example_env \<noteq> Some (Inl ERROR_CAPACITY_INVALID) \<and>
   map_option (exit_status example_codes) (verify_transfer example_env) \<noteq> Some (-102) \<and>
   exit_code example_codes ERROR_CAPACITY_INVALID = -102"
proof -
  have equal: "fst (ckb_load_cell_capacity example_env 0 CKB_SOURCE_GROUP_INPUT) = CKB_SUCCESS"
    "fst (ckb_load_cell_capacity example_env 0 CKB_SOURCE_GROUP_OUTPUT) = CKB_SUCCESS"
    "input_capacity example_env = 1000" "output_capacity example_env = 1000"
    by (simp_all add: example_env_def status_defs host_defs)
  have raw: "fst (ckb_load_tx_hash tx_no_validators_shrinking) \<noteq> -102"
    "ckb_secp256k1_custom_verify_only_initialize tx_no_validators_shrinking \<noteq> -102"
    "fst (ckb_load_tx_hash example_env) \<noteq> -102"
    "ckb_secp256k1_custom_verify_only_initialize example_env \<noteq> -102"
    by (simp_all add: tx_no_validators_shrinking_def tx_no_validators_def example_env_def)
  have codes: "witness_size_code example_codes \<noteq> -102"
    "secp_parse_signature_code example_codes \<noteq> -102"
    "secp_recover_pubkey_code example_codes \<noteq> -102"
    "secp_serialize_pubkey_code example_codes \<noteq> -102"
    by (simp_all add: example_codes_def)
  note shrinking = capacity_check[OF tx_no_validators_shrinking_facts(1,2), of example_codes]
  note keeping = capacity_check[OF equal(1,2), of example_codes]
  have sizes: "unat (input_capacity tx_no_validators_shrinking) = 1000"
    "unat (output_capacity tx_no_validators_shrinking) = 999"
    "unat (input_capacity example_env) = 1000" "unat (output_capacity example_env) = 1000"
    by (simp_all add: tx_no_validators_shrinking_facts equal)
  have lt: "unat (output_capacity tx_no_validators_shrinking)
      < unat (input_capacity tx_no_validators_shrinking)"
    and nlt: "\<not> unat (output_capacity example_env) < unat (input_capacity example_env)"
    by (simp_all add: sizes)
  from shrinking lt have s1:
    "verify_transfer tx_no_validators_shrinking = Some (Inl ERROR_CAPACITY_INVALID)"
    by blast
  from shrinking lt raw codes have s2:
    "map_option (exit_status example_codes) (verify_transfer tx_no_validators_shrinking) = Some (-102)"
    by blast
  from keeping nlt have k1: "verify_transfer example_env \<noteq> Some (Inl ERROR_CAPACITY_INVALID)"
    by blast
  from keeping nlt raw codes have k2:
    "map_option (exit_status example_codes) (verify_transfer example_env) \<noteq> Some (-102)"
    by blast
  from shrinking have code: "exit_code example_codes ERROR_CAPACITY_INVALID = -102" by blast
  from tx_no_validators_shrinking_facts(1,2) equal(1,2) sizes s1 s2 k1 k2 code
  show ?thesis by blast
qed

subsection \<open>Counting the cells of a group\<close>

text \<open>
  C8, at the input where the code and the claim part. The claim: the count of
  \<^verbatim>\<open>get_cell_num\<close> is the number of queries that succeeded. On a host that answers
  the query for cell 0 with the result 2, which is neither success nor index-out-of-range,
  and the query for cell 1 with index-out-of-range, no query succeeds and
  \<^verbatim>\<open>get_cell_num\<close> returns 1: the loop tests the result only against
  \<^verbatim>\<open>CKB_INDEX_OUT_OF_BOUND\<close>, where the witness loops of \<^verbatim>\<open>verify_transfer\<close> go
  on to test it against \<^verbatim>\<open>CKB_SUCCESS\<close>.
\<close>

theorem get_cell_num_counts_failed_query:
  "get_cell_num tx_cell_error CKB_SOURCE_GROUP_INPUT = Some 1 \<and>
   successful_queries tx_cell_error CKB_SOURCE_GROUP_INPUT 1 = 0"
  by (simp add: get_cell_num_eq successful_queries_def tx_cell_error_def status_defs)

subsection \<open>Exit statuses\<close>

text \<open>
  C9, amended. The exit status is 0 only when the script accepts. When both capacity
  fields and the transaction hash load and the secp256k1 context initialises, every
  failure returns one of the codes that the source names, each a negative number (those
  of common.h are taken to be negative). Different causes may share a code.
\<close>

theorem failure_codes:
  assumes "main e = Some r"
    and "witness_size_code c < 0" and "secp_parse_signature_code c < 0"
    and "secp_recover_pubkey_code c < 0" and "secp_serialize_pubkey_code c < 0"
  shows "(exit_status c r = 0 \<longleftrightarrow> r = Inr ()) \<and>
         (fst (ckb_load_cell_capacity e 0 CKB_SOURCE_GROUP_INPUT) = CKB_SUCCESS \<and>
          fst (ckb_load_cell_capacity e 0 CKB_SOURCE_GROUP_OUTPUT) = CKB_SUCCESS \<and>
          fst (ckb_load_tx_hash e) = CKB_SUCCESS \<and>
          ckb_secp256k1_custom_verify_only_initialize e = 0 \<longrightarrow>
            r = Inr () \<or> (\<exists>x. r = Inl x \<and> x \<in> named_errors \<and> exit_code c x < 0))"
proof (cases r)
  case (Inr u)
  then show ?thesis by (simp add: exit_status_def CKB_SUCCESS_def)
next
  case (Inl x)
  with assms(1) have "main e = Some (Inl x)" by simp
  from main_errors[OF this] show ?thesis
  proof
    assume named: "x \<in> named_errors"
    from named_errors_negative[OF named assms(2-5)] named Inl show ?thesis
      by (simp add: exit_status_def)
  next
    assume "\<exists>k. x = RET k \<and> k \<noteq> 0 \<and>
        (k = fst (ckb_load_cell_capacity e 0 CKB_SOURCE_GROUP_INPUT) \<or>
         k = fst (ckb_load_cell_capacity e 0 CKB_SOURCE_GROUP_OUTPUT) \<or>
         k = fst (ckb_load_tx_hash e) \<or>
         k = ckb_secp256k1_custom_verify_only_initialize e)"
    with Inl show ?thesis
      by (auto simp: exit_status_def CKB_SUCCESS_def)
  qed
qed

text \<open>
  The theorem of C9 at the transfer whose lock has 64 bytes.
\<close>

theorem failure_codes_witness:
  "main tx_short_lock = Some (Inl ERROR_ARGUMENTS_LEN) \<and>
   fst (ckb_load_cell_capacity tx_short_lock 0 CKB_SOURCE_GROUP_INPUT) = CKB_SUCCESS \<and>
   fst (ckb_load_cell_capacity tx_short_lock 0 CKB_SOURCE_GROUP_OUTPUT) = CKB_SUCCESS \<and>
   fst (ckb_load_tx_hash tx_short_lock) = CKB_SUCCESS \<and>
   ckb_secp256k1_custom_verify_only_initialize tx_short_lock = 0 \<and>
   ERROR_ARGUMENTS_LEN \<in> named_errors \<and>
   exit_status example_codes (Inl ERROR_ARGUMENTS_LEN) \<noteq> 0 \<and>
   exit_code example_codes ERROR_ARGUMENTS_LEN < 0"
proof -
  have codes: "witness_size_code example_codes < 0" "secp_parse_signature_code example_codes < 0"
    "secp_recover_pubkey_code example_codes < 0" "secp_serialize_pubkey_code example_codes < 0"
    by (simp_all add: example_codes_def)
  have loads: "fst (ckb_load_cell_capacity tx_short_lock 0 CKB_SOURCE_GROUP_INPUT) = CKB_SUCCESS"
    "fst (ckb_load_cell_capacity tx_short_lock 0 CKB_SOURCE_GROUP_OUTPUT) = CKB_SUCCESS"
    "fst (ckb_load_tx_hash tx_short_lock) = CKB_SUCCESS"
    "ckb_secp256k1_custom_verify_only_initialize tx_short_lock = 0"
    by (simp_all add: tx_short_lock_def example_env_def status_defs)
  from failure_codes[OF main_tx_short_lock codes] loads main_tx_short_lock
  show ?thesis by auto
qed

text \<open>
  C9 as stated fails. Two causes share the code -1: args of 27 bytes (with a lock of 65
  bytes) and a lock of 64 bytes (with args of 40 bytes) both give
  \<open>ERROR_ARGUMENTS_LEN\<close>. And a capacity query that fails with the host result 2
  makes the script return 2, the host's value.
\<close>

theorem shared_and_raw_codes:
  "main tx_args_27 = Some (Inl ERROR_ARGUMENTS_LEN) \<and>
   length (script_args tx_args_27) = 27 \<and>
   extract_witness_lock tx_args_27 (witness0 tx_args_27) = Some (4, 65) \<and>
   main tx_short_lock = Some (Inl ERROR_ARGUMENTS_LEN) \<and>
   length (script_args tx_short_lock) = 40 \<and>
   extract_witness_lock tx_short_lock (witness0 tx_short_lock) = Some (4, 64) \<and>
   main tx_capacity_query_fails = Some (Inl (RET 2)) \<and>
   exit_status example_codes (Inl (RET 2)) = 2"
proof -
  have "extract_witness_lock tx_args_27 (witness0 tx_args_27) = Some (4, 65) \<and>
      transfer_short_hash tx_args_27 = Some (replicate 20 3)"
    by (rule example_short_hash) (simp_all add: tx_args_27_def)
  then show ?thesis
    by (simp add: main_tx_args_27 main_tx_short_lock main_tx_capacity_query_fails
        tx_args_27_facts tx_short_lock_facts exit_status_def)
qed

subsection \<open>An empty validator set\<close>

text \<open>
  C10, amended. When the args are empty no transfer is accepted, and every transfer that
  passes the checks before the scan of the args (the loads succeed, the capacity does
  not shrink, and a short hash is recovered from the lock of witness 0) is rejected with
  \<open>ERROR_VALIDATOR_SIGNATURE_INVALID\<close> (-103).
\<close>

theorem no_validators_rejected:
  assumes "script_args e = []"
  shows "verify_transfer e \<noteq> Some (Inr ()) \<and>
         (transfer_loads_succeed e \<and> input_capacity e \<le> output_capacity e \<and>
          transfer_short_hash e \<noteq> None \<longrightarrow>
            verify_transfer e = Some (Inl ERROR_VALIDATOR_SIGNATURE_INVALID)) \<and>
         exit_code c ERROR_VALIDATOR_SIGNATURE_INVALID = -103"
proof -
  from assms have empty: "set (validator_set (script_args e)) = {}"
    by (simp add: validator_set_def)
  then have "verify_transfer e \<noteq> Some (Inr ())"
    by (simp add: verify_transfer_accept_iff)
  moreover have "verify_transfer e = Some (Inl ERROR_VALIDATOR_SIGNATURE_INVALID)"
    if "transfer_loads_succeed e" "input_capacity e \<le> output_capacity e"
      "transfer_short_hash e = Some h" for h
    using verify_transfer_result[OF that] empty by simp
  ultimately show ?thesis by auto
qed

text \<open>
  The theorem of C10 at the example transfer with empty args.
\<close>

theorem no_validators_rejected_witness:
  "script_args tx_no_validators = [] \<and>
   transfer_loads_succeed tx_no_validators \<and>
   input_capacity tx_no_validators \<le> output_capacity tx_no_validators \<and>
   transfer_short_hash tx_no_validators = Some (replicate 20 3) \<and>
   verify_transfer tx_no_validators = Some (Inl ERROR_VALIDATOR_SIGNATURE_INVALID) \<and>
   exit_code example_codes ERROR_VALIDATOR_SIGNATURE_INVALID = -103"
  using no_validators_rejected[OF tx_no_validators_facts(3), of example_codes]
  by (simp add: tx_no_validators_facts)

text \<open>
  C10 as stated fails: with empty args, a transfer from capacity 1000 to 999 is rejected
  with \<open>ERROR_CAPACITY_INVALID\<close>, and a transfer whose signature does not parse with
  \<open>ERROR_SECP_PARSE_SIGNATURE\<close>.
\<close>

theorem no_validators_other_errors:
  "script_args tx_no_validators_shrinking = [] \<and>
   get_cell_num tx_no_validators_shrinking CKB_SOURCE_GROUP_INPUT = Some 1 \<and>
   get_cell_num tx_no_validators_shrinking CKB_SOURCE_GROUP_OUTPUT = Some 1 \<and>
   main tx_no_validators_shrinking = Some (Inl ERROR_CAPACITY_INVALID) \<and>
   script_args tx_no_validators_bad_recid = [] \<and>
   get_cell_num tx_no_validators_bad_recid CKB_SOURCE_GROUP_INPUT = Some 1 \<and>
   get_cell_num tx_no_validators_bad_recid CKB_SOURCE_GROUP_OUTPUT = Some 1 \<and>
   main tx_no_validators_bad_recid = Some (Inl ERROR_SECP_PARSE_SIGNATURE)"
proof -
  have counts: "get_cell_num tx_no_validators_shrinking src = Some 1"
    "get_cell_num tx_no_validators_bad_recid src = Some 1" for src
    by (rule example_counts,
        simp add: tx_no_validators_shrinking_def tx_no_validators_bad_recid_def
          tx_no_validators_def)+
  have "verify_transfer tx_no_validators_shrinking = Some (Inl ERROR_CAPACITY_INVALID)"
    by (rule verify_transfer_capacity) (simp_all add: tx_no_validators_shrinking_facts)
  moreover have "main tx_no_validators_shrinking = verify_transfer tx_no_validators_shrinking"
    by (rule main_transfer)
       (simp_all add: counts,
        simp_all add: tx_no_validators_shrinking_def tx_no_validators_def status_defs
          SCRIPT_SIZE_def)
  moreover have "main tx_no_validators_bad_recid = verify_transfer tx_no_validators_bad_recid"
    by (rule main_transfer)
       (simp_all add: counts,
        simp_all add: tx_no_validators_bad_recid_def tx_no_validators_def status_defs
          SCRIPT_SIZE_def)
  ultimately show ?thesis
    using tx_no_validators_bad_recid_rejected tx_no_validators_shrinking_facts(5) counts
    by simp
qed

end
